theory Spec2Isabelle
  imports Complex_Main
begin

section \<open>JavaScript values\<close>

text \<open>
  The classifier's answer and an imported backup both come out of \<^verbatim>\<open>JSON.parse\<close> and are
  used without any run-time check (\<^verbatim>\<open>as GeminiAnalysisResult\<close>, \<^verbatim>\<open>(t: any)\<close>), so the
  ledger and the classification outcome are modelled as untyped JavaScript values. An
  object is the list of its own properties (keys distinct, as a parsed object has them).
  Numbers are reals: \<^verbatim>\<open>NaN\<close> and the infinities are left out.
  Strings are lists of bytes; a character outside ASCII is written as its UTF-8 bytes.
\<close>

datatype jsval =
    JUndefined
  | JNull
  | JBool bool
  | JNumber real
  | JString string
  | JArray "jsval list"
  | JObject "(string \<times> jsval) list"

datatype error =
    TypeError
  | NoInputProvided
  | NoResponseFromGemini
  | SyntaxError
  | GenerateContentFailed
  | SupabaseNotInitialized
  | SupabaseError

text \<open>Truthiness, as \<^verbatim>\<open>if (v)\<close>, \<^verbatim>\<open>!v\<close>, \<^verbatim>\<open>a && b\<close> and \<^verbatim>\<open>a || b\<close> test it.\<close>

fun truthy :: "jsval \<Rightarrow> bool" where
  "truthy JUndefined = False"
| "truthy JNull = False"
| "truthy (JBool b) = b"
| "truthy (JNumber n) = (n \<noteq> 0)"
| "truthy (JString s) = (s \<noteq> [])"
| "truthy (JArray xs) = True"
| "truthy (JObject kvs) = True"

text \<open>\<^verbatim>\<open>a || b\<close>: the first operand when it is truthy, else the second.\<close>

definition js_or :: "jsval \<Rightarrow> jsval \<Rightarrow> jsval" where
  "js_or a b = (if truthy a then a else b)"

text \<open>
  A nullable string parameter (\<^verbatim>\<open>string | null\<close>, or \<^verbatim>\<open>undefined\<close> out of
  \<^verbatim>\<open>split(',')[1]\<close>): \<open>None\<close> is null or undefined. It is truthy when it is a
  non-empty string.
\<close>

fun present :: "string option \<Rightarrow> bool" where
  "present None = False"
| "present (Some s) = (s \<noteq> [])"

text \<open>
  Reading a property \<^verbatim>\<open>v.k\<close>. On \<^verbatim>\<open>null\<close> and \<^verbatim>\<open>undefined\<close> it raises a TypeError; on
  an object it is the own property or \<^verbatim>\<open>undefined\<close>; on every other value it is
  \<^verbatim>\<open>undefined\<close> for the property names this program reads (\<^verbatim>\<open>id\<close>, \<^verbatim>\<open>date\<close>,
  \<^verbatim>\<open>amount\<close>, \<^verbatim>\<open>description\<close>, \<^verbatim>\<open>category\<close>, \<^verbatim>\<open>type\<close>, \<^verbatim>\<open>action\<close>,
  \<^verbatim>\<open>transactionData\<close>, \<^verbatim>\<open>replyMessage\<close>), none of which a prototype defines.
\<close>

fun nullish :: "jsval \<Rightarrow> bool" where
  "nullish JUndefined = True"
| "nullish JNull = True"
| "nullish v = False"

fun property :: "jsval \<Rightarrow> string \<Rightarrow> jsval" where
  "property (JObject kvs) k = (case map_of kvs k of None \<Rightarrow> JUndefined | Some v \<Rightarrow> v)"
| "property v k = JUndefined"

definition get :: "jsval \<Rightarrow> string \<Rightarrow> error + jsval" where
  "get v k = (if nullish v then Inl TypeError else Inr (property v k))"

text \<open>
  \<^verbatim>\<open>xs.every(p)\<close> with a callback that may raise: it stops at the first element the
  callback rejects, and an exception of the callback leaves the loop.
\<close>

fun every :: "('a \<Rightarrow> error + bool) \<Rightarrow> 'a list \<Rightarrow> error + bool" where
  "every p [] = Inr True"
| "every p (x # xs) =
     (case p x of
        Inl e \<Rightarrow> Inl e
      | Inr b \<Rightarrow> if b then every p xs else Inr False)"

text \<open>\<^verbatim>\<open>xs.map(f)\<close> with a callback that may raise.\<close>

fun map_raise :: "('a \<Rightarrow> error + 'b) \<Rightarrow> 'a list \<Rightarrow> error + 'b list" where
  "map_raise f [] = Inr []"
| "map_raise f (x # xs) =
     (case f x of
        Inl e \<Rightarrow> Inl e
      | Inr y \<Rightarrow> (case map_raise f xs of Inl e \<Rightarrow> Inl e | Inr ys \<Rightarrow> Inr (y # ys)))"

section \<open>Types of the application (types.ts)\<close>

record UserProfile =
  user_id :: string
  user_email :: "string option"
  user_name :: string
  user_token :: "string option"

datatype role = User | Model

datatype ProcessingStatus = IDLE | RECORDING | PROCESSING | SUCCESS | ERROR

text \<open>
  The text of a chat message. The reply that confirms a new record is the template
  \<^verbatim>\<open>`<check> ${description} (R$ ${amount.toFixed(2)}) adicionado. ${replyMessage}`\<close>; its rendering
  is not modelled, the three interpolated values are kept.
\<close>

datatype chat_text =
    Literal string
  | Reply jsval
  | Added jsval real jsval

record ChatMessage =
  msg_id :: string
  msg_role :: role
  msg_text :: chat_text
  imageUri :: "string option"
  isAudio :: "bool option"

text \<open>
  A Transaction is the object
  \<^verbatim>\<open>{id, date, description, amount, category, type, userId}\<close>. An element of the ledger
  that came from an imported file is whatever object the file held.
\<close>

definition mkTransaction ::
  "jsval \<Rightarrow> jsval \<Rightarrow> jsval \<Rightarrow> jsval \<Rightarrow> jsval \<Rightarrow> jsval \<Rightarrow> jsval \<Rightarrow> jsval" where
  "mkTransaction i d descr amt cat ty u =
     JObject [(''id'', i), (''date'', d), (''description'', descr), (''amount'', amt),
              (''category'', cat), (''type'', ty), (''userId'', u)]"

text \<open>
  The interface \<^verbatim>\<open>GeminiAnalysisResult\<close>: what a value must look like to inhabit the
  declared type of a classification outcome.
\<close>

definition isTransactionData :: "jsval \<Rightarrow> bool" where
  "isTransactionData td =
     (case td of
        JObject kvs \<Rightarrow>
          (case property td ''description'' of JString _ \<Rightarrow> True | _ \<Rightarrow> False) \<and>
          (case property td ''amount'' of JNumber _ \<Rightarrow> True | _ \<Rightarrow> False) \<and>
          (case property td ''category'' of JString _ \<Rightarrow> True | _ \<Rightarrow> False) \<and>
          (property td ''type'' = JString ''income'' \<or> property td ''type'' = JString ''expense'')
      | _ \<Rightarrow> False)"

definition isGeminiAnalysisResult :: "jsval \<Rightarrow> bool" where
  "isGeminiAnalysisResult r =
     (case r of
        JObject kvs \<Rightarrow>
          (property r ''action'' = JString ''ADD_TRANSACTION'' \<or>
           property r ''action'' = JString ''CHAT_ONLY'') \<and>
          (property r ''transactionData'' = JUndefined \<or>
           isTransactionData (property r ''transactionData'')) \<and>
          (case property r ''replyMessage'' of JString _ \<Rightarrow> True | _ \<Rightarrow> False)
      | _ \<Rightarrow> False)"

section \<open>The remote store (services/api.ts)\<close>

text \<open>
  A row of the table \<^verbatim>\<open>transactions\<close>, with the columns the payloads name.
\<close>

record row =
  row_id :: jsval
  row_user_id :: string
  row_date :: jsval
  row_description :: jsval
  row_amount :: jsval
  row_category :: jsval
  row_type :: jsval

text \<open>
  What the query builder sends: \<^verbatim>\<open>.select('*')\<close>, \<^verbatim>\<open>.insert(rows)\<close> or \<^verbatim>\<open>.delete()\<close> on
  the table, narrowed by \<^verbatim>\<open>.eq(column, value)\<close> filters.
\<close>

datatype eq_filter = Eq string jsval

datatype query =
    Select "eq_filter list"
  | Insert "row list"
  | Delete "eq_filter list"

fun column :: "string \<Rightarrow> row \<Rightarrow> jsval" where
  "column c r =
     (if c = ''id'' then row_id r
      else if c = ''user_id'' then JString (row_user_id r)
      else if c = ''date'' then row_date r
      else if c = ''description'' then row_description r
      else if c = ''amount'' then row_amount r
      else if c = ''category'' then row_category r
      else if c = ''type'' then row_type r
      else JUndefined)"

fun holds :: "row \<Rightarrow> eq_filter \<Rightarrow> bool" where
  "holds r (Eq c v) = (column c r = v)"

definition matches :: "eq_filter list \<Rightarrow> row \<Rightarrow> bool" where
  "matches fs r = list_all (holds r) fs"

text \<open>
  The store is the external collaborator. A query that succeeds has the usual meaning on
  the table; the pair is the table afterwards and the rows returned.
\<close>

fun exec :: "query \<Rightarrow> row list \<Rightarrow> row list \<times> row list" where
  "exec (Select fs) tbl = (tbl, filter (matches fs) tbl)"
| "exec (Insert rs) tbl = (tbl @ rs, [])"
| "exec (Delete fs) tbl = (filter (\<lambda>r. \<not> matches fs r) tbl, [])"

text \<open>
  The environment of a run: everything the program reads from outside. \<open>fault n\<close> says
  that the \<open>n\<close>-th remote call (counted from 0) comes back with an error;
  \<open>generateContent\<close> is the classification service, \<open>json_parse\<close> is
  \<^verbatim>\<open>JSON.parse\<close> (\<open>None\<close> when it raises), \<open>to_number\<close> is \<^verbatim>\<open>Number(v)\<close>,
  \<open>uuidv4 n\<close> is the \<open>n\<close>-th identifier generated.
\<close>

datatype part = InlineData string string | Text string

record systemInstruction =
  personalityInstruction :: string
  currentDateTime :: string
  historyContext :: "jsval list"

record request =
  modelName :: string
  parts :: "part list"
  instruction :: systemInstruction

datatype gen_result = Rejected | Responded "string option"

record env =
  supabase :: bool
  fault :: "nat \<Rightarrow> bool"
  generateContent :: "request \<Rightarrow> gen_result"
  json_parse :: "string \<Rightarrow> jsval option"
  to_number :: "jsval \<Rightarrow> jsval"
  uuidv4 :: "nat \<Rightarrow> string"
  nowISO :: string
  nowLocale :: string

record remote =
  tbl :: "row list"
  sent :: "query list"

text \<open>
  One awaited call of the client: the query is recorded; when the call fails the table
  is left as it was and \<^verbatim>\<open>error\<close> is set in the answer.
\<close>

definition send :: "env \<Rightarrow> query \<Rightarrow> remote \<Rightarrow> (bool \<times> row list) \<times> remote" where
  "send e q w =
     (if fault e (length (sent w))
      then ((True, []), w\<lparr>sent := sent w @ [q]\<rparr>)
      else ((False, snd (exec q (tbl w))),
            w\<lparr>tbl := fst (exec q (tbl w)), sent := sent w @ [q]\<rparr>))"

definition transaction_of_row :: "env \<Rightarrow> row \<Rightarrow> jsval" where
  "transaction_of_row e r =
     mkTransaction (row_id r) (row_date r) (row_description r) (to_number e (row_amount r))
       (row_category r) (row_type r) (JString (row_user_id r))"

definition getTransactions :: "env \<Rightarrow> UserProfile \<Rightarrow> remote \<Rightarrow> (error + jsval list) \<times> remote" where
  "getTransactions e user w =
     (if \<not> supabase e then (Inl SupabaseNotInitialized, w)
      else
        let res = send e (Select [Eq ''user_id'' (JString (user_id user))]) w in
        if fst (fst res) then (Inl SupabaseError, snd res)
        else (Inr (map (transaction_of_row e) (snd (fst res))), snd res))"

text \<open>The payload of an insert: the owner column is the session's id.\<close>

definition payload :: "UserProfile \<Rightarrow> jsval \<Rightarrow> error + row" where
  "payload user t =
     (if nullish t then Inl TypeError
      else Inr \<lparr> row_id = property t ''id'',
                 row_user_id = user_id user,
                 row_date = property t ''date'',
                 row_description = property t ''description'',
                 row_amount = property t ''amount'',
                 row_category = property t ''category'',
                 row_type = property t ''type'' \<rparr>)"

definition saveTransaction :: "env \<Rightarrow> UserProfile \<Rightarrow> jsval \<Rightarrow> remote \<Rightarrow> (error + jsval) \<times> remote" where
  "saveTransaction e user t w =
     (if \<not> supabase e then (Inl SupabaseNotInitialized, w)
      else
        case payload user t of
          Inl err \<Rightarrow> (Inl err, w)
        | Inr p \<Rightarrow>
            let res = send e (Insert [p]) w in
            if fst (fst res) then (Inl SupabaseError, snd res)
            else (Inr t, snd res))"

definition deleteTransaction :: "env \<Rightarrow> UserProfile \<Rightarrow> jsval \<Rightarrow> remote \<Rightarrow> (error + unit) \<times> remote" where
  "deleteTransaction e user i w =
     (if \<not> supabase e then (Inl SupabaseNotInitialized, w)
      else
        let res = send e (Delete [Eq ''id'' i, Eq ''user_id'' (JString (user_id user))]) w in
        if fst (fst res) then (Inl SupabaseError, snd res)
        else (Inr (), snd res))"

text \<open>
  The bulk replacement deletes the owner's rows, without looking at the answer of that
  call, then inserts the new rows when there are any.
\<close>

definition updateAllTransactions ::
  "env \<Rightarrow> UserProfile \<Rightarrow> jsval list \<Rightarrow> remote \<Rightarrow> (error + unit) \<times> remote" where
  "updateAllTransactions e user ts w =
     (if \<not> supabase e then (Inl SupabaseNotInitialized, w)
      else
        let w1 = snd (send e (Delete [Eq ''user_id'' (JString (user_id user))]) w) in
        if ts \<noteq> [] then
          (case map_raise (payload user) ts of
             Inl err \<Rightarrow> (Inl err, w1)
           | Inr ps \<Rightarrow>
               let res = send e (Insert ps) w1 in
               if fst (fst res) then (Inl SupabaseError, snd res)
               else (Inr (), snd res))
        else (Inr (), w1))"

section \<open>The classifier gateway (services/geminiService.ts)\<close>

definition GEMINI_3_MODEL :: string where
  "GEMINI_3_MODEL = ''gemini-3-pro-preview''"

definition GEMINI_AUDIO_MODEL :: string where
  "GEMINI_AUDIO_MODEL = ''gemini-2.5-flash''"

text \<open>
  The response schema handed to the service. Descriptions are left out. What it means
  for a value to conform is the service's business; \<open>conforms\<close> is the usual reading:
  a string (of the enumeration when there is one), a number, or an object that has every
  required property and whose listed properties, where present, conform; a nullable
  object may be \<^verbatim>\<open>null\<close>.
\<close>

datatype schema =
    SString "string list option"
  | SNumber
  | SObject "(string \<times> schema) list" "string list" bool

definition analysisSchema :: schema where
  "analysisSchema =
     SObject
       [(''action'', SString (Some [''ADD_TRANSACTION'', ''CHAT_ONLY''])),
        (''transactionData'',
           SObject
             [(''description'', SString None),
              (''amount'', SNumber),
              (''category'', SString None),
              (''type'', SString (Some [''income'', ''expense'']))]
             [] True),
        (''replyMessage'', SString None)]
       [''action'', ''replyMessage'']
       False"

fun conforms :: "schema \<Rightarrow> jsval \<Rightarrow> bool" where
  "conforms (SString en) v =
     (case v of
        JString s \<Rightarrow> (case en of None \<Rightarrow> True | Some allowed \<Rightarrow> s \<in> set allowed)
      | _ \<Rightarrow> False)"
| "conforms SNumber v = (case v of JNumber n \<Rightarrow> True | _ \<Rightarrow> False)"
| "conforms (SObject props required nullable) v =
     (case v of
        JNull \<Rightarrow> nullable
      | JObject kvs \<Rightarrow>
          list_all (\<lambda>k. map_of kvs k \<noteq> None) required \<and>
          list_all (\<lambda>p. case map_of kvs (fst p) of
                           None \<Rightarrow> True
                         | Some x \<Rightarrow> conforms (snd p) x) props
      | _ \<Rightarrow> False)"

definition apologyText :: string where
  "apologyText =
     ''Desculpe, tive um problema ao processar sua solicita'' @
     [CHR 0xC3, CHR 0xA7, CHR 0xC3, CHR 0xA3] @ ''o. Tente novamente.''"

definition fallbackResult :: jsval where
  "fallbackResult =
     JObject [(''action'', JString ''CHAT_ONLY''), (''replyMessage'', JString apologyText)]"

definition defaultPersonality :: string where
  "defaultPersonality =
     ''Voc'' @ [CHR 0xC3, CHR 0xAA] @ '' '' @ [CHR 0xC3, CHR 0xA9] @
     '' um assistente financeiro pessoal inteligente e amig'' @ [CHR 0xC3, CHR 0xA1] @ ''vel.''"

definition audioPrompt :: string where
  "audioPrompt =
     ''Analise este '' @ [CHR 0xC3, CHR 0xA1] @ ''udio. O usu'' @ [CHR 0xC3, CHR 0xA1] @
     ''rio est'' @ [CHR 0xC3, CHR 0xA1] @
     '' relatando uma despesa ou receita? Ou fazendo uma pergunta?''"

definition imagePrompt :: string where
  "imagePrompt = ''Analise esta imagem (recibo/nota) e extraia os dados financeiros.''"

text \<open>
  \<^verbatim>\<open>s.trim() !== ""\<close>: some character of \<open>s\<close> is not white space. \<open>blank s\<close> says
  that \<open>s\<close> is white space only, read as UTF-8: the ASCII characters TAB, LF, VT, FF,
  CR and SP, the two bytes of U+00A0, and the three bytes of U+1680, U+2000 to U+200A,
  U+2028, U+2029, U+202F, U+205F, U+3000 and U+FEFF, which are the white space and the
  line terminators \<^verbatim>\<open>trim\<close> strips.
\<close>

definition is_space :: "char \<Rightarrow> bool" where
  "is_space c = (c \<in> set [CHR 0x20, CHR 0x09, CHR 0x0A, CHR 0x0B, CHR 0x0C, CHR 0x0D])"

definition wide_space :: "char \<Rightarrow> char \<Rightarrow> char \<Rightarrow> bool" where
  "wide_space a b c =
     (a = CHR 0xE1 \<and> b = CHR 0x9A \<and> c = CHR 0x80 \<or>
      a = CHR 0xE2 \<and> b = CHR 0x80 \<and>
        c \<in> set [CHR 0x80, CHR 0x81, CHR 0x82, CHR 0x83, CHR 0x84, CHR 0x85, CHR 0x86,
                   CHR 0x87, CHR 0x88, CHR 0x89, CHR 0x8A, CHR 0xA8, CHR 0xA9, CHR 0xAF] \<or>
      a = CHR 0xE2 \<and> b = CHR 0x81 \<and> c = CHR 0x9F \<or>
      a = CHR 0xE3 \<and> b = CHR 0x80 \<and> c = CHR 0x80 \<or>
      a = CHR 0xEF \<and> b = CHR 0xBB \<and> c = CHR 0xBF)"

fun blank :: "string \<Rightarrow> bool" where
  "blank [] = True"
| "blank [a] = is_space a"
| "blank [a, b] =
     (if is_space a then is_space b else a = CHR 0xC2 \<and> b = CHR 0xA0)"
| "blank (a # b # c # cs) =
     (if is_space a then blank (b # c # cs)
      else if a = CHR 0xC2 \<and> b = CHR 0xA0 then blank (c # cs)
      else wide_space a b c \<and> blank cs)"

text \<open>
  The parts of the request and the model it goes to: audio takes precedence and goes to
  the audio model, then the image (with the text, or with a fixed prompt), then the text.
\<close>

definition selectModel :: "string option \<Rightarrow> string" where
  "selectModel audioBase64 =
     (if present audioBase64 then GEMINI_AUDIO_MODEL else GEMINI_3_MODEL)"

definition buildParts :: "string option \<Rightarrow> string option \<Rightarrow> string option \<Rightarrow> part list" where
  "buildParts text imageBase64 audioBase64 =
     (if present audioBase64 then
        [InlineData ''audio/wav'' (the audioBase64), Text audioPrompt]
      else if present imageBase64 then
        [InlineData ''image/jpeg'' (the imageBase64),
         if present text then Text (the text) else Text imagePrompt]
      else if present text then [Text (the text)]
      else [])"

text \<open>
  The system instruction: the personality (the caller's one replaces the default one),
  the date and time, and the last ten records of the ledger.
\<close>

definition buildInstruction :: "env \<Rightarrow> jsval list \<Rightarrow> string \<Rightarrow> systemInstruction" where
  "buildInstruction e currentHistory customPersonality =
     \<lparr> personalityInstruction =
         (if customPersonality \<noteq> [] \<and> \<not> blank customPersonality
          then ''IMPORTANTE - PERSONALIDADE: '' @ customPersonality @
               ''. Aja conforme esta personalidade.''
          else defaultPersonality),
       currentDateTime = nowLocale e,
       historyContext = drop (length currentHistory - 10) currentHistory \<rparr>"

text \<open>
  The body of the \<^verbatim>\<open>try\<close> block. The second component is the list of requests sent to
  the service so far.
\<close>

definition processInputWithGemini_try ::
  "env \<Rightarrow> string option \<Rightarrow> string option \<Rightarrow> string option \<Rightarrow> systemInstruction \<Rightarrow>
   request list \<Rightarrow> (error + jsval) \<times> request list" where
  "processInputWithGemini_try e text imageBase64 audioBase64 sys asked =
     (let parts = buildParts text imageBase64 audioBase64 in
        if parts = [] then (Inl NoInputProvided, asked)
        else
          let req = \<lparr> modelName = selectModel audioBase64, parts = parts, instruction = sys \<rparr> in
          case generateContent e req of
            Rejected \<Rightarrow> (Inl GenerateContentFailed, asked @ [req])
          | Responded responseText \<Rightarrow>
              if \<not> present responseText then (Inl NoResponseFromGemini, asked @ [req])
              else
                (case json_parse e (the responseText) of
                   None \<Rightarrow> (Inl SyntaxError, asked @ [req])
                 | Some v \<Rightarrow> (Inr v, asked @ [req])))"

text \<open>
  The whole function: the instruction is built, the body runs, and the \<^verbatim>\<open>catch\<close> turns
  every exception of the body into the fallback. \<open>Inl\<close> would be an exception leaving
  the function.
\<close>

definition processInputWithGemini ::
  "env \<Rightarrow> string option \<Rightarrow> string option \<Rightarrow> string option \<Rightarrow> jsval list \<Rightarrow> string \<Rightarrow>
   request list \<Rightarrow> (error + jsval) \<times> request list" where
  "processInputWithGemini e text imageBase64 audioBase64 currentHistory customPersonality asked =
     (let sys = buildInstruction e currentHistory customPersonality;
          res = processInputWithGemini_try e text imageBase64 audioBase64 sys asked
      in case fst res of
           Inl err \<Rightarrow> (Inr fallbackResult, snd res)
         | Inr v \<Rightarrow> (Inr v, snd res))"

section \<open>The application state and its handlers (App.tsx)\<close>

text \<open>
  The dialogs shown with \<^verbatim>\<open>alert\<close>, in the order of the source:
  "Erro ao excluir no servidor.", "Dados restaurados com sucesso!", "Arquivo invalido.",
  "Erro ao ler arquivo.", "Erro ao salvar transacao no servidor, mas esta salva na memoria."
\<close>

datatype alert =
    DeleteFailedAlert
  | RestoredAlert
  | InvalidFileAlert
  | ReadErrorAlert
  | SaveFailedAlert

text \<open>
  The state of the component, together with what the run has done outside it: the remote
  table and the queries sent (\<open>store\<close>), the classifier requests sent (\<open>asked\<close>), the
  dialogs shown (\<open>alerts\<close>) and the number of identifiers drawn (\<open>uuids\<close>).
  A handler runs from start to end on the state it finds: the list \<^verbatim>\<open>transactions\<close> its
  closure holds is the current one, and no other handler runs while it awaits.
  Every element of \<open>transactions\<close> is an object (a record built here, a row read back,
  or an element of a validated import), so reading its \<^verbatim>\<open>id\<close> does not raise.
\<close>

record state =
  currentUser :: "UserProfile option"
  transactions :: "jsval list"
  chatHistory :: "ChatMessage list"
  aiPersonality :: string
  inputText :: string
  selectedImage :: "string option"
  status :: ProcessingStatus
  isLoading :: bool
  showSettings :: bool
  alerts :: "alert list"
  store :: remote
  asked :: "request list"
  uuids :: nat

text \<open>
  \<^verbatim>\<open>handleDeleteTransaction(id)\<close>; \<open>confirmed\<close> is the user's answer to the
  confirmation dialog. Two things are simpler here than in the source. The handler is
  one step: nothing else runs between the removal and the answer of the delete, whereas
  the source awaits there and rolls back to the list it copied at the click. And
  \<^verbatim>\<open>t.id !== id\<close> is inequality of values: that is what it is for the strings, numbers
  and booleans an id can be by its declared type and by every record built here or read
  back; for an id that is an object (an imported file can hold one) the source compares
  references, and a record with an equal but distinct object as id would stay in its
  filtered list.
\<close>

definition handleDeleteTransaction :: "env \<Rightarrow> jsval \<Rightarrow> bool \<Rightarrow> state \<Rightarrow> state" where
  "handleDeleteTransaction e i confirmed s =
     (case currentUser s of
        None \<Rightarrow> s
      | Some user \<Rightarrow>
          if confirmed then
            let prevTransactions = transactions s;
                s1 = s\<lparr>transactions := filter (\<lambda>t. property t ''id'' \<noteq> i) (transactions s)\<rparr>;
                res = deleteTransaction e user i (store s1)
            in case fst res of
                 Inr u \<Rightarrow> s1\<lparr>store := snd res\<rparr>
               | Inl err \<Rightarrow>
                   s1\<lparr>store := snd res,
                      transactions := prevTransactions,
                      alerts := alerts s1 @ [DeleteFailedAlert]\<rparr>
          else s)"

text \<open>The test of one imported element: \<^verbatim>\<open>t.id && t.amount && t.date\<close>.\<close>

definition validEntry :: "jsval \<Rightarrow> error + bool" where
  "validEntry t =
     (case get t ''id'' of
        Inl err \<Rightarrow> Inl err
      | Inr i \<Rightarrow>
          if \<not> truthy i then Inr False
          else
            (case get t ''amount'' of
               Inl err \<Rightarrow> Inl err
             | Inr a \<Rightarrow>
                 if \<not> truthy a then Inr False
                 else
                   (case get t ''date'' of
                      Inl err \<Rightarrow> Inl err
                    | Inr d \<Rightarrow> Inr (truthy d))))"

text \<open>
  \<^verbatim>\<open>handleImportData\<close> with the handler of the file reader: \<open>file\<close> is the text of the
  chosen file (\<open>None\<close> when none was chosen), \<open>confirmed\<close> the answer to the
  confirmation dialog.
\<close>

definition handleImportData :: "env \<Rightarrow> string option \<Rightarrow> bool \<Rightarrow> state \<Rightarrow> state" where
  "handleImportData e file confirmed s =
     (case file of
        None \<Rightarrow> s
      | Some content \<Rightarrow>
     (case currentUser s of
        None \<Rightarrow> s
      | Some user \<Rightarrow>
     (case json_parse e content of
        None \<Rightarrow> s\<lparr>alerts := alerts s @ [ReadErrorAlert]\<rparr>
      | Some importedData \<Rightarrow>
     (case importedData of
        JArray xs \<Rightarrow>
          (case every validEntry xs of
             Inl err \<Rightarrow> s\<lparr>alerts := alerts s @ [ReadErrorAlert]\<rparr>
           | Inr ok \<Rightarrow>
               if ok then
                 if confirmed then
                   let s1 = s\<lparr>isLoading := True\<rparr>;
                       res = updateAllTransactions e user xs (store s1)
                   in case fst res of
                        Inl err \<Rightarrow>
                          s1\<lparr>store := snd res, alerts := alerts s1 @ [ReadErrorAlert]\<rparr>
                      | Inr u \<Rightarrow>
                          s1\<lparr>store := snd res,
                             transactions := xs,
                             isLoading := False,
                             alerts := alerts s1 @ [RestoredAlert],
                             showSettings := False\<rparr>
                 else s
               else s\<lparr>alerts := alerts s @ [InvalidFileAlert]\<rparr>)
      | _ \<Rightarrow> s\<lparr>alerts := alerts s @ [InvalidFileAlert]\<rparr>))))"

text \<open>\<^verbatim>\<open>image.split(',')[1]\<close>: the piece after the first comma, \<^verbatim>\<open>undefined\<close> without one.\<close>

fun split_comma :: "string \<Rightarrow> string list" where
  "split_comma [] = [[]]"
| "split_comma (c # cs) =
     (if c = CHR '','' then [] # split_comma cs
      else (case split_comma cs of
              [] \<Rightarrow> [[c]]
            | w # ws \<Rightarrow> (c # w) # ws))"

fun second :: "string list \<Rightarrow> string option" where
  "second (a # b # rest) = Some b"
| "second xs = None"

definition audioSent :: string where
  "audioSent = [CHR 0xF0, CHR 0x9F, CHR 0x8E, CHR 0xA4] @ '' ['' @ [CHR 0xC3, CHR 0x81] @
               ''udio enviado]''"

definition imageSent :: string where
  "imageSent = [CHR 0xF0, CHR 0x9F, CHR 0x93, CHR 0xB7] @ '' [Imagem enviada]''"

text \<open>
  The record \<^verbatim>\<open>newTransaction\<close> built from \<^verbatim>\<open>result.transactionData\<close>; \<open>k\<close> is the
  number of identifiers drawn before.
\<close>

definition newTransaction :: "env \<Rightarrow> UserProfile \<Rightarrow> jsval \<Rightarrow> nat \<Rightarrow> jsval" where
  "newTransaction e user td k =
     mkTransaction
       (JString (uuidv4 e k))
       (JString (nowISO e))
       (js_or (property td ''description'') (JString ''Geral''))
       (js_or (property td ''amount'') (JNumber 0))
       (js_or (property td ''category'') (JString ''Geral''))
       (property td ''type'')
       (JString (user_id user))"

text \<open>
  The part of \<^verbatim>\<open>processSubmission\<close> after the classifier has answered with \<open>r\<close>.
  The insert is started and not awaited; its failure only shows a dialog, whenever it
  comes. The first component is the exception raised, if any: \<^verbatim>\<open>result.action\<close> on
  \<^verbatim>\<open>null\<close> raises in the handler; \<^verbatim>\<open>toFixed\<close> on an amount that is no number raises
  when the chat update is applied, and is reported here as well, with the chat and the
  status left as they were.
\<close>

definition applyResult :: "env \<Rightarrow> UserProfile \<Rightarrow> jsval \<Rightarrow> state \<Rightarrow> error option \<times> state" where
  "applyResult e user r s =
     (case get r ''action'' of
        Inl err \<Rightarrow> (Some err, s)
      | Inr action \<Rightarrow>
          if action = JString ''ADD_TRANSACTION'' \<and> truthy (property r ''transactionData'') then
            let td = property r ''transactionData'';
                tx = newTransaction e user td (uuids s);
                s1 = s\<lparr>uuids := uuids s + 1,
                        transactions := transactions s @ [tx]\<rparr>;
                saved = saveTransaction e user tx (store s1);
                s2 = s1\<lparr>store := snd saved,
                         alerts := (case fst saved of
                                      Inl err \<Rightarrow> alerts s1 @ [SaveFailedAlert]
                                    | Inr t \<Rightarrow> alerts s1)\<rparr>;
                s3 = s2\<lparr>uuids := uuids s2 + 1\<rparr>
            in case property tx ''amount'' of
                 JNumber n \<Rightarrow>
                   (None,
                    s3\<lparr>chatHistory := chatHistory s3 @
                          [\<lparr> msg_id = uuidv4 e (uuids s2),
                             msg_role = Model,
                             msg_text = Added (property tx ''description'') n
                                          (property r ''replyMessage''),
                             imageUri = None,
                             isAudio = None \<rparr>],
                       status := SUCCESS\<rparr>)
               | _ \<Rightarrow> (Some TypeError, s3)
          else
            (None,
             s\<lparr>uuids := uuids s + 1,
               chatHistory := chatHistory s @
                 [\<lparr> msg_id = uuidv4 e (uuids s),
                    msg_role = Model,
                    msg_text = Reply (property r ''replyMessage''),
                    imageUri = None,
                    isAudio = None \<rparr>],
               status := SUCCESS\<rparr>))"

text \<open>The image handed to the gateway: \<^verbatim>\<open>image ? image.split(',')[1] : null\<close>.\<close>

definition imagePayload :: "string option \<Rightarrow> string option" where
  "imagePayload imageUri0 =
     (if present imageUri0 then second (split_comma (the imageUri0)) else None)"

text \<open>The chat message \<^verbatim>\<open>newMessage\<close> that shows the user's input.\<close>

definition userMessage ::
  "env \<Rightarrow> string option \<Rightarrow> string option \<Rightarrow> string option \<Rightarrow> state \<Rightarrow> ChatMessage" where
  "userMessage e text imageUri0 audio s =
     \<lparr> msg_id = uuidv4 e (uuids s),
       msg_role = User,
       msg_text = Literal (if present text then the text
                           else if present audio then audioSent else imageSent),
       imageUri = (if present imageUri0 then imageUri0 else None),
       isAudio = Some (present audio) \<rparr>"

text \<open>
  \<^verbatim>\<open>processSubmission(text, image, audio)\<close> (the parameter \<^verbatim>\<open>image\<close> is
  \<open>imageUri0\<close> here). The timer that sets the status back to
  \<^verbatim>\<open>IDLE\<close> two seconds later is not modelled.
\<close>

definition processSubmission ::
  "env \<Rightarrow> string option \<Rightarrow> string option \<Rightarrow> string option \<Rightarrow> state \<Rightarrow> error option \<times> state" where
  "processSubmission e text imageUri0 audio s =
     (case currentUser s of
        None \<Rightarrow> (None, s)
      | Some user \<Rightarrow>
          if \<not> present text \<and> \<not> present imageUri0 \<and> \<not> present audio then (None, s)
          else
            let newMessage = userMessage e text imageUri0 audio s;
                s1 = s\<lparr>status := PROCESSING,
                        uuids := uuids s + 1,
                        chatHistory := chatHistory s @ [newMessage],
                        inputText := [],
                        selectedImage := None\<rparr>;
                res = processInputWithGemini e text (imagePayload imageUri0) audio
                        (transactions s) (aiPersonality s) (asked s1);
                s2 = s1\<lparr>asked := snd res\<rparr>
            in (case fst res of
                  Inl err \<Rightarrow> (Some err, s2)
                | Inr r \<Rightarrow> applyResult e user r s2))"

section \<open>What the specification says of a backup file\<close>

text \<open>
  Stated from the words of the specification, to compare with \<open>validEntry\<close>: an element
  carries a non-empty field when it is an object that has the field, and the field is
  neither \<^verbatim>\<open>null\<close> nor \<^verbatim>\<open>undefined\<close> nor the empty string. A backup is acceptable when
  it is an array whose elements all carry non-empty \<^verbatim>\<open>id\<close>, \<^verbatim>\<open>amount\<close> and \<^verbatim>\<open>date\<close>.
\<close>

definition carries :: "jsval \<Rightarrow> string \<Rightarrow> bool" where
  "carries t k =
     (case t of
        JObject kvs \<Rightarrow>
          (case map_of kvs k of
             None \<Rightarrow> False
           | Some v \<Rightarrow>
               (case v of
                  JUndefined \<Rightarrow> False
                | JNull \<Rightarrow> False
                | JString s \<Rightarrow> s \<noteq> []
                | _ \<Rightarrow> True))
      | _ \<Rightarrow> False)"

definition acceptableEntry :: "jsval \<Rightarrow> bool" where
  "acceptableEntry t = (carries t ''id'' \<and> carries t ''amount'' \<and> carries t ''date'')"

definition acceptableBackup :: "jsval \<Rightarrow> bool" where
  "acceptableBackup v = (case v of JArray xs \<Rightarrow> list_all acceptableEntry xs | _ \<Rightarrow> False)"

text \<open>The value the file reader's handler parses: none when no file was chosen.\<close>

definition parsedFile :: "env \<Rightarrow> string option \<Rightarrow> jsval option" where
  "parsedFile e file = (case file of None \<Rightarrow> None | Some content \<Rightarrow> json_parse e content)"

section \<open>Names for the statements\<close>

text \<open>The outcome the gateway returns for a submission made in state \<open>s\<close>.\<close>

definition classification ::
  "env \<Rightarrow> string option \<Rightarrow> string option \<Rightarrow> string option \<Rightarrow> state \<Rightarrow> error + jsval" where
  "classification e text imageUri0 audio s =
     fst (processInputWithGemini e text (imagePayload imageUri0) audio
            (transactions s) (aiPersonality s) (asked s))"

text \<open>
  What the body of the gateway makes of the service's answer to a request: the parsed
  value, or the exception raised.
\<close>

definition serviceAnswer :: "env \<Rightarrow> request \<Rightarrow> error + jsval" where
  "serviceAnswer e req =
     (case generateContent e req of
        Rejected \<Rightarrow> Inl GenerateContentFailed
      | Responded responseText \<Rightarrow>
          if \<not> present responseText then Inl NoResponseFromGemini
          else (case json_parse e (the responseText) of
                  None \<Rightarrow> Inl SyntaxError
                | Some v \<Rightarrow> Inr v))"

text \<open>The state in which the gateway's outcome is applied.\<close>

definition submitted ::
  "env \<Rightarrow> string option \<Rightarrow> string option \<Rightarrow> string option \<Rightarrow> state \<Rightarrow> state" where
  "submitted e text imageUri0 audio s =
     s\<lparr>status := PROCESSING,
       uuids := uuids s + 1,
       chatHistory := chatHistory s @ [userMessage e text imageUri0 audio s],
       inputText := [],
       selectedImage := None,
       asked := snd (processInputWithGemini e text (imagePayload imageUri0) audio
                       (transactions s) (aiPersonality s) (asked s))\<rparr>"

text \<open>A remote call made now fails: the client is missing, or the call is one that errs.\<close>

definition remoteFails :: "env \<Rightarrow> state \<Rightarrow> bool" where
  "remoteFails e s = (\<not> supabase e \<or> fault e (length (sent (store s))))"

text \<open>
  A query is scoped by an owner when it filters on the owner's \<^verbatim>\<open>user_id\<close>, or inserts
  rows of that owner only. \<open>foreign\<close> are the rows of the other owners, \<open>owned\<close> the
  owner's.
\<close>

fun scoped :: "string \<Rightarrow> query \<Rightarrow> bool" where
  "scoped owner (Select fs) = (Eq ''user_id'' (JString owner) \<in> set fs)"
| "scoped owner (Insert rs) = list_all (\<lambda>r. row_user_id r = owner) rs"
| "scoped owner (Delete fs) = (Eq ''user_id'' (JString owner) \<in> set fs)"

definition foreign :: "string \<Rightarrow> row list \<Rightarrow> row list" where
  "foreign owner rows = filter (\<lambda>r. row_user_id r \<noteq> owner) rows"

definition owned :: "string \<Rightarrow> row list \<Rightarrow> row list" where
  "owned owner rows = filter (\<lambda>r. row_user_id r = owner) rows"

section \<open>Sample runs\<close>

text \<open>
  A session, an environment and a state to run the handlers on. The environment parses
  the listed texts to the listed values (any other text is a syntax error), answers every
  classifier request with \<open>answer\<close>, and fails the remote calls \<open>flt\<close> picks.
\<close>

definition sampleUser :: UserProfile where
  "sampleUser = \<lparr> user_id = ''u1'', user_email = None, user_name = ''ana'', user_token = None \<rparr>"

definition sampleEnv :: "(string \<times> jsval) list \<Rightarrow> gen_result \<Rightarrow> (nat \<Rightarrow> bool) \<Rightarrow> env" where
  "sampleEnv texts answer flt =
     \<lparr> supabase = True,
       fault = flt,
       generateContent = (\<lambda>req. answer),
       json_parse = map_of texts,
       to_number = (\<lambda>v. v),
       uuidv4 = (\<lambda>n. ''uuid-'' @ replicate n (CHR ''x'')),
       nowISO = ''2024-01-01T00:00:00.000Z'',
       nowLocale = ''01/01/2024, 00:00:00'' \<rparr>"

definition sampleState :: "jsval list \<Rightarrow> row list \<Rightarrow> state" where
  "sampleState ledger rows =
     \<lparr> currentUser = Some sampleUser,
       transactions = ledger,
       chatHistory = [],
       aiPersonality = [],
       inputText = [],
       selectedImage = None,
       status = IDLE,
       isLoading = False,
       showSettings = False,
       alerts = [],
       store = \<lparr> tbl = rows, sent = [] \<rparr>,
       asked = [],
       uuids = 0 \<rparr>"

definition coffee :: jsval where
  "coffee =
     mkTransaction (JString ''t1'') (JString ''2024-01-01T00:00:00Z'') (JString ''coffee'')
       (JNumber 10) (JString ''food'') (JString ''expense'') (JString ''u1'')"

text \<open>The backup file \<^verbatim>\<open>[{"id":"1"}]\<close> and the value it parses to.\<close>

definition dq :: string where
  "dq = [CHR 0x22]"

definition onlyIdText :: string where
  "onlyIdText = ''[{'' @ dq @ ''id'' @ dq @ '':'' @ dq @ ''1'' @ dq @ ''}]''"

definition onlyIdValue :: jsval where
  "onlyIdValue = JArray [JObject [(''id'', JString ''1'')]]"

text \<open>An outcome that asks for a new record and carries no transactionData.\<close>

definition addOnly :: "string \<Rightarrow> jsval" where
  "addOnly m = JObject [(''action'', JString ''ADD_TRANSACTION''), (''replyMessage'', JString m)]"

text \<open>
  Answers of the classifier and backup files, each as its text and as the value the text
  parses to; rows of the remote table, one of them of another owner.
\<close>

definition breadText :: string where
  "breadText =
    ''{'' @ dq @ ''action'' @ dq @ '':'' @ dq @ ''ADD_TRANSACTION'' @ dq @ '','' @ dq @
    ''transactionData'' @ dq @ '':{'' @ dq @ ''description'' @ dq @ '':'' @ dq @ ''bread'' @
    dq @ '','' @ dq @ ''amount'' @ dq @ '':30,'' @ dq @ ''category'' @ dq @ '':'' @ dq @
    ''food'' @ dq @ '','' @ dq @ ''type'' @ dq @ '':'' @ dq @ ''expense'' @ dq @ ''},'' @ dq @
    ''replyMessage'' @ dq @ '':'' @ dq @ ''ok'' @ dq @ ''}''"

definition noCategoryText :: string where
  "noCategoryText =
    ''{'' @ dq @ ''action'' @ dq @ '':'' @ dq @ ''ADD_TRANSACTION'' @ dq @ '','' @ dq @
    ''transactionData'' @ dq @ '':{'' @ dq @ ''description'' @ dq @ '':'' @ dq @ ''bread'' @
    dq @ '','' @ dq @ ''amount'' @ dq @ '':30,'' @ dq @ ''category'' @ dq @ '':'' @ dq @ dq @
    '','' @ dq @ ''type'' @ dq @ '':'' @ dq @ ''expense'' @ dq @ ''},'' @ dq @
    ''replyMessage'' @ dq @ '':'' @ dq @ ''ok'' @ dq @ ''}''"

definition addOnlyText :: string where
  "addOnlyText =
    ''{'' @ dq @ ''action'' @ dq @ '':'' @ dq @ ''ADD_TRANSACTION'' @ dq @ '','' @ dq @
    ''replyMessage'' @ dq @ '':'' @ dq @ ''ok'' @ dq @ ''}''"

definition freebieText :: string where
  "freebieText =
    ''[{'' @ dq @ ''id'' @ dq @ '':'' @ dq @ ''t2'' @ dq @ '','' @ dq @ ''date'' @ dq @
    '':'' @ dq @ ''2024-01-02T00:00:00Z'' @ dq @ '','' @ dq @ ''description'' @ dq @ '':'' @
    dq @ ''sample'' @ dq @ '','' @ dq @ ''amount'' @ dq @ '':0,'' @ dq @ ''category'' @ dq @
    '':'' @ dq @ ''food'' @ dq @ '','' @ dq @ ''type'' @ dq @ '':'' @ dq @ ''expense'' @ dq @
    '','' @ dq @ ''userId'' @ dq @ '':'' @ dq @ ''u1'' @ dq @ ''}]''"



definition breadValue :: jsval where
  "breadValue =
     JObject [(''action'', JString ''ADD_TRANSACTION''),
              (''transactionData'',
                 JObject [(''description'', JString ''bread''), (''amount'', JNumber 30),
                          (''category'', JString ''food''), (''type'', JString ''expense'')]),
              (''replyMessage'', JString ''ok'')]"

definition noCategoryValue :: jsval where
  "noCategoryValue =
     JObject [(''action'', JString ''ADD_TRANSACTION''),
              (''transactionData'',
                 JObject [(''description'', JString ''bread''), (''amount'', JNumber 30),
                          (''category'', JString []), (''type'', JString ''expense'')]),
              (''replyMessage'', JString ''ok'')]"

definition freebie :: jsval where
  "freebie =
     mkTransaction (JString ''t2'') (JString ''2024-01-02T00:00:00Z'') (JString ''sample'')
       (JNumber 0) (JString ''food'') (JString ''expense'') (JString ''u1'')"

text \<open>An environment whose classifier answers with one text, parsed to one value.\<close>

definition answering :: "string \<Rightarrow> jsval \<Rightarrow> (nat \<Rightarrow> bool) \<Rightarrow> env" where
  "answering txt v flt = sampleEnv [(txt, v)] (Responded (Some txt)) flt"

definition coffeeRow :: row where
  "coffeeRow =
     \<lparr> row_id = JString ''t1'', row_user_id = ''u1'', row_date = JString ''2024-01-01T00:00:00Z'',
       row_description = JString ''coffee'', row_amount = JNumber 10,
       row_category = JString ''food'', row_type = JString ''expense'' \<rparr>"


definition otherRow :: row where
  "otherRow =
     \<lparr> row_id = JString ''t9'', row_user_id = ''u2'', row_date = JString ''2024-01-01T00:00:00Z'',
       row_description = JString ''rent'', row_amount = JNumber 900,
       row_category = JString ''home'', row_type = JString ''expense'' \<rparr>"

definition smuggled :: jsval where
  "smuggled =
     mkTransaction (JString ''t3'') (JString ''2024-01-03T00:00:00Z'') (JString ''gift'')
       (JNumber 5) (JString ''other'') (JString ''income'') (JString ''u2'')"

definition zeroAmountValue :: jsval where
  "zeroAmountValue =
     JObject [(''action'', JString ''ADD_TRANSACTION''),
              (''transactionData'',
                 JObject [(''description'', JString ''sample''), (''amount'', JNumber 0),
                          (''category'', JString ''food''), (''type'', JString ''expense'')]),
              (''replyMessage'', JString ''ok'')]"

definition helloRequest :: "env \<Rightarrow> request" where
  "helloRequest e =
     \<lparr> modelName = GEMINI_3_MODEL, parts = [Text ''hello''],
       instruction = buildInstruction e [] [] \<rparr>"



section \<open>Importing a backup\<close>

lemma every_True: "every p xs = Inr True \<Longrightarrow> list_all (\<lambda>x. p x = Inr True) xs"
  by (induction xs) (auto split: sum.splits if_splits)

lemma validEntry_True:
  "validEntry t = Inr True \<Longrightarrow>
     truthy (property t ''id'') \<and> truthy (property t ''amount'') \<and> truthy (property t ''date'')"
  by (auto simp: validEntry_def get_def split: if_splits sum.splits)

lemma truthy_carries: "truthy (property t k) \<Longrightarrow> carries t k"
  by (cases t) (auto simp: carries_def split: option.splits jsval.splits)

lemma validEntry_acceptable: "validEntry t = Inr True \<Longrightarrow> acceptableEntry t"
  using validEntry_True[of t] by (simp add: acceptableEntry_def truthy_carries)

lemma every_acceptable: "every validEntry xs = Inr True \<Longrightarrow> list_all acceptableEntry xs"
  using every_True[of validEntry xs] by (auto simp: list_all_iff validEntry_acceptable)

text \<open>
  Unless the file parses to an array that passes the test of every element, the handler
  does nothing but show a dialog.
\<close>

lemma import_rejected:
  assumes "\<not> (\<exists>xs. parsedFile e file = Some (JArray xs) \<and> every validEntry xs = Inr True)"
  shows "handleImportData e file confirmed s = s \<or>
         handleImportData e file confirmed s = s\<lparr>alerts := alerts s @ [InvalidFileAlert]\<rparr> \<or>
         handleImportData e file confirmed s = s\<lparr>alerts := alerts s @ [ReadErrorAlert]\<rparr>"
proof (cases "file")
  case None
  then show ?thesis by (simp add: handleImportData_def)
next
  case (Some content)
  note chosen = this
  show ?thesis
  proof (cases "currentUser s")
    case None
    with chosen show ?thesis by (simp add: handleImportData_def)
  next
    case (Some user)
    note user = this
    show ?thesis
    proof (cases "json_parse e content")
      case None
      with chosen user show ?thesis by (simp add: handleImportData_def)
    next
      case (Some v)
      note parsed = this
      show ?thesis
      proof (cases "\<exists>xs. v = JArray xs")
        case False
        with chosen user parsed show ?thesis
          by (cases v) (simp_all add: handleImportData_def)
      next
        case True
        then obtain xs where v: "v = JArray xs" by blast
        with assms chosen parsed have ne: "every validEntry xs \<noteq> Inr True"
          by (simp add: parsedFile_def)
        show ?thesis
        proof (cases "every validEntry xs")
          case (Inl err)
          with chosen user parsed v show ?thesis by (simp add: handleImportData_def)
        next
          case (Inr ok)
          with ne have "\<not> ok" by simp
          with Inr chosen user parsed v show ?thesis by (simp add: handleImportData_def)
        qed
      qed
    qed
  qed
qed

text \<open>
  C6. An import goes through only if the parsed content is an array in which every
  element carries a non-empty id, amount and date. Otherwise the import is rejected as a
  whole: the ledger in memory and the remote store (its table and the calls sent to it)
  are as before, and the state differs at most by the dialog shown.
\<close>

theorem import_only_valid:
  assumes "\<not> (\<exists>v. parsedFile e file = Some v \<and> acceptableBackup v)"
  shows "transactions (handleImportData e file confirmed s) = transactions s \<and>
         store (handleImportData e file confirmed s) = store s \<and>
         (handleImportData e file confirmed s = s \<or>
          handleImportData e file confirmed s = s\<lparr>alerts := alerts s @ [InvalidFileAlert]\<rparr> \<or>
          handleImportData e file confirmed s = s\<lparr>alerts := alerts s @ [ReadErrorAlert]\<rparr>)"
proof -
  have "\<not> (\<exists>xs. parsedFile e file = Some (JArray xs) \<and> every validEntry xs = Inr True)"
  proof
    assume "\<exists>xs. parsedFile e file = Some (JArray xs) \<and> every validEntry xs = Inr True"
    then obtain xs where p: "parsedFile e file = Some (JArray xs)"
      and v: "every validEntry xs = Inr True"
      by blast
    from v have "acceptableBackup (JArray xs)"
      by (simp add: acceptableBackup_def every_acceptable)
    with p assms show False by blast
  qed
  from import_rejected[OF this, of confirmed s] show ?thesis
    by auto
qed

theorem import_only_valid_witness:
  "parsedFile (sampleEnv [(onlyIdText, onlyIdValue)] Rejected (\<lambda>n. False)) (Some onlyIdText)
     = Some onlyIdValue \<and>
   \<not> acceptableBackup onlyIdValue \<and>
   transactions (handleImportData (sampleEnv [(onlyIdText, onlyIdValue)] Rejected (\<lambda>n. False))
                   (Some onlyIdText) True (sampleState [coffee] [])) = [coffee] \<and>
   store (handleImportData (sampleEnv [(onlyIdText, onlyIdValue)] Rejected (\<lambda>n. False))
            (Some onlyIdText) True (sampleState [coffee] [])) = \<lparr> tbl = [], sent = [] \<rparr>"
proof -
  have p: "parsedFile (sampleEnv [(onlyIdText, onlyIdValue)] Rejected (\<lambda>n. False))
             (Some onlyIdText) = Some onlyIdValue"
    by (simp add: parsedFile_def sampleEnv_def)
  have n: "\<not> acceptableBackup onlyIdValue"
    by (simp add: onlyIdValue_def acceptableBackup_def acceptableEntry_def carries_def)
  from p n have h: "\<not> (\<exists>v. parsedFile (sampleEnv [(onlyIdText, onlyIdValue)] Rejected (\<lambda>n. False))
                            (Some onlyIdText) = Some v \<and> acceptableBackup v)"
    by simp
  from import_only_valid[OF h, of True "sampleState [coffee] []"] p n show ?thesis
    by (simp add: sampleState_def)
qed

lemma every_falsy:
  assumes "t \<in> set xs" "validEntry t \<noteq> Inr True"
  shows "every validEntry xs \<noteq> Inr True"
proof
  assume "every validEntry xs = Inr True"
  from every_True[OF this] assms show False by (simp add: list_all_iff)
qed

text \<open>
  C10. The test of an element is by truthiness: a backup array that holds a record whose
  amount is 0 (or whose id or date is the empty string) is rejected as a whole, and
  nothing is imported. Yet a submission whose transactionData has amount 0 does put a
  record with amount 0 into the ledger, from where it is exported.
\<close>

theorem import_rejects_falsy_field:
  "(json_parse e content = Some (JArray xs) \<and> t \<in> set xs \<and>
    (property t ''amount'' = JNumber 0 \<or> property t ''id'' = JString [] \<or>
     property t ''date'' = JString [])
    \<longrightarrow> transactions (handleImportData e (Some content) confirmed s) = transactions s \<and>
        store (handleImportData e (Some content) confirmed s) = store s \<and>
        (handleImportData e (Some content) confirmed s = s \<or>
         handleImportData e (Some content) confirmed s = s\<lparr>alerts := alerts s @ [InvalidFileAlert]\<rparr> \<or>
         handleImportData e (Some content) confirmed s = s\<lparr>alerts := alerts s @ [ReadErrorAlert]\<rparr>)) \<and>
   (get r ''action'' = Inr (JString ''ADD_TRANSACTION'') \<and>
    truthy (property r ''transactionData'') \<and>
    property (property r ''transactionData'') ''amount'' = JNumber 0
    \<longrightarrow> (\<exists>tx. transactions (snd (applyResult e u r s)) = transactions s @ [tx] \<and>
              property tx ''amount'' = JNumber 0 \<and> fst (applyResult e u r s) = None))"
proof -
  have A: "transactions (handleImportData e (Some content) confirmed s) = transactions s \<and>
        store (handleImportData e (Some content) confirmed s) = store s \<and>
        (handleImportData e (Some content) confirmed s = s \<or>
         handleImportData e (Some content) confirmed s = s\<lparr>alerts := alerts s @ [InvalidFileAlert]\<rparr> \<or>
         handleImportData e (Some content) confirmed s = s\<lparr>alerts := alerts s @ [ReadErrorAlert]\<rparr>)"
    if a: "json_parse e content = Some (JArray xs) \<and> t \<in> set xs \<and>
      (property t ''amount'' = JNumber 0 \<or> property t ''id'' = JString [] \<or>
       property t ''date'' = JString [])"
  proof -
    from a have "validEntry t \<noteq> Inr True"
      using validEntry_True[of t] by auto
    with a have ne: "every validEntry xs \<noteq> Inr True"
      using every_falsy[of t xs] by blast
    with a have "\<not> (\<exists>ys. parsedFile e (Some content) = Some (JArray ys) \<and>
                          every validEntry ys = Inr True)"
      by (simp add: parsedFile_def)
    from import_rejected[OF this, of confirmed s] show ?thesis
      by auto
  qed
  have B: "\<exists>tx. transactions (snd (applyResult e u r s)) = transactions s @ [tx] \<and>
              property tx ''amount'' = JNumber 0 \<and> fst (applyResult e u r s) = None"
    if b: "get r ''action'' = Inr (JString ''ADD_TRANSACTION'') \<and>
      truthy (property r ''transactionData'') \<and>
      property (property r ''transactionData'') ''amount'' = JNumber 0"
    using b by (simp add: applyResult_def Let_def js_or_def mkTransaction_def newTransaction_def)
  from A B show ?thesis by blast
qed

section \<open>Submissions and removals\<close>

lemma processSubmission_applies:
  assumes "currentUser s = Some u"
    and "present text \<or> present imageUri0 \<or> present audio"
    and "classification e text imageUri0 audio s = Inr r"
  shows "processSubmission e text imageUri0 audio s =
           applyResult e u r (submitted e text imageUri0 audio s)"
  using assms
  by (auto simp add: processSubmission_def classification_def submitted_def Let_def)

lemma processSubmission_nothing:
  assumes "\<not> present text" "\<not> present imageUri0" "\<not> present audio"
  shows "processSubmission e text imageUri0 audio s = (None, s)"
  using assms by (simp add: processSubmission_def split: option.splits)

lemma submitted_fields:
  "transactions (submitted e text imageUri0 audio s) = transactions s"
  "store (submitted e text imageUri0 audio s) = store s"
  "alerts (submitted e text imageUri0 audio s) = alerts s"
  "currentUser (submitted e text imageUri0 audio s) = currentUser s"
  "chatHistory (submitted e text imageUri0 audio s) =
     chatHistory s @ [userMessage e text imageUri0 audio s]"
  "uuids (submitted e text imageUri0 audio s) = uuids s + 1"
  by (simp_all add: submitted_def)

lemma applyResult_chat:
  assumes "get r ''action'' = Inr a"
    and "\<not> (a = JString ''ADD_TRANSACTION'' \<and> truthy (property r ''transactionData''))"
  shows "applyResult e u r s =
           (None,
            s\<lparr>uuids := uuids s + 1,
              chatHistory := chatHistory s @
                [\<lparr> msg_id = uuidv4 e (uuids s), msg_role = Model,
                   msg_text = Reply (property r ''replyMessage''),
                   imageUri = None, isAudio = None \<rparr>],
              status := SUCCESS\<rparr>)"
  using assms by (auto simp add: applyResult_def)

lemma applyResult_add:
  assumes "get r ''action'' = Inr (JString ''ADD_TRANSACTION'')"
    and "truthy (property r ''transactionData'')"
    and "js_or (property (property r ''transactionData'') ''amount'') (JNumber 0) = JNumber n"
  shows "fst (applyResult e u r s) = None"
    and "transactions (snd (applyResult e u r s)) = transactions s @ [newTransaction e u (property r ''transactionData'') (uuids s)]"
    and "status (snd (applyResult e u r s)) = SUCCESS"
    and "store (snd (applyResult e u r s)) =
           snd (saveTransaction e u (newTransaction e u (property r ''transactionData'') (uuids s)) (store s))"
    and "alerts (snd (applyResult e u r s)) =
           (case fst (saveTransaction e u (newTransaction e u (property r ''transactionData'') (uuids s)) (store s)) of
              Inl err \<Rightarrow> alerts s @ [SaveFailedAlert] | Inr t \<Rightarrow> alerts s)"
    and "chatHistory (snd (applyResult e u r s)) = chatHistory s @
           [\<lparr> msg_id = uuidv4 e (uuids s + 1), msg_role = Model,
              msg_text = Added (js_or (property (property r ''transactionData'') ''description'')
                                  (JString ''Geral'')) n (property r ''replyMessage''),
              imageUri = None, isAudio = None \<rparr>]"
  using assms
  by (simp_all add: applyResult_def Let_def newTransaction_def mkTransaction_def split: sum.split)


lemma remote_failure:
  assumes "\<not> supabase e \<or> fault e (length (sent w))"
  shows "\<exists>err. fst (saveTransaction e u (JObject kvs) w) = Inl err"
    and "tbl (snd (saveTransaction e u (JObject kvs) w)) = tbl w"
    and "\<exists>err. fst (deleteTransaction e u i w) = Inl err"
    and "tbl (snd (deleteTransaction e u i w)) = tbl w"
  using assms
  by (auto simp add: saveTransaction_def deleteTransaction_def payload_def send_def Let_def)

lemma wellTyped_add:
  assumes "isGeminiAnalysisResult r"
    and "property r ''action'' = JString ''ADD_TRANSACTION''"
    and "property r ''transactionData'' \<noteq> JUndefined"
  shows "get r ''action'' = Inr (JString ''ADD_TRANSACTION'')"
    and "truthy (property r ''transactionData'')"
    and "\<exists>n. property (property r ''transactionData'') ''amount'' = JNumber n"
    and "\<exists>c. property (property r ''transactionData'') ''category'' = JString c"
proof -
  from assms(1) obtain kvs where r: "r = JObject kvs"
    by (cases r) (simp_all add: isGeminiAnalysisResult_def)
  with assms show "get r ''action'' = Inr (JString ''ADD_TRANSACTION'')"
    by (simp add: get_def)
  from assms(1,3) r have td: "isTransactionData (property r ''transactionData'')"
    by (simp add: isGeminiAnalysisResult_def)
  then obtain tkvs where t: "property r ''transactionData'' = JObject tkvs"
    by (cases "property r ''transactionData''") (simp_all add: isTransactionData_def)
  then show "truthy (property r ''transactionData'')" by simp
  from td t show "\<exists>n. property (property r ''transactionData'') ''amount'' = JNumber n"
    by (simp add: isTransactionData_def split: jsval.splits)
  from td t show "\<exists>c. property (property r ''transactionData'') ''category'' = JString c"
    by (simp add: isTransactionData_def split: jsval.splits)
qed


lemma submitted_remoteFails:
  "remoteFails e (submitted e' text imageUri0 audio s) = remoteFails e s"
  by (simp add: remoteFails_def submitted_def)

text \<open>
  C2, as the code has it. For a response of the declared type with action
  ADD_TRANSACTION and a transactionData object, the submission appends exactly one record
  to the ledger; its type and amount are those of transactionData, and its category is
  that of transactionData unless that is the empty string, in which case it is "Geral".
\<close>

theorem appended_record_matches:
  assumes user: "currentUser s = Some u"
    and input: "present text \<or> present imageUri0 \<or> present audio"
    and outcome: "classification e text imageUri0 audio s = Inr r"
    and typed: "isGeminiAnalysisResult r"
    and add: "property r ''action'' = JString ''ADD_TRANSACTION''"
    and data: "property r ''transactionData'' \<noteq> JUndefined"
  shows "\<exists>tx. transactions (snd (processSubmission e text imageUri0 audio s)) =
                 transactions s @ [tx] \<and>
              property tx ''type'' = property (property r ''transactionData'') ''type'' \<and>
              property tx ''amount'' = property (property r ''transactionData'') ''amount'' \<and>
              property tx ''category'' =
                (if property (property r ''transactionData'') ''category'' = JString []
                 then JString ''Geral''
                 else property (property r ''transactionData'') ''category'')"
proof -
  let ?td = "property r ''transactionData''"
  let ?s1 = "submitted e text imageUri0 audio s"
  from wellTyped_add[OF typed add data]
  obtain n c where a: "get r ''action'' = Inr (JString ''ADD_TRANSACTION'')"
    and t: "truthy ?td"
    and n: "property ?td ''amount'' = JNumber n"
    and c: "property ?td ''category'' = JString c"
    by blast
  from n have j: "js_or (property ?td ''amount'') (JNumber 0) = JNumber n"
    by (simp add: js_or_def)
  have "transactions (snd (processSubmission e text imageUri0 audio s)) =
          transactions s @ [newTransaction e u ?td (uuids ?s1)]"
    using applyResult_add(2)[OF a t j, of e u ?s1]
      processSubmission_applies[OF user input outcome]
    by (simp add: submitted_fields)
  moreover have "property (newTransaction e u ?td (uuids ?s1)) ''type'' = property ?td ''type''"
    by (simp add: newTransaction_def mkTransaction_def)
  moreover have "property (newTransaction e u ?td (uuids ?s1)) ''amount'' = property ?td ''amount''"
    using j n by (simp add: newTransaction_def mkTransaction_def)
  moreover have "property (newTransaction e u ?td (uuids ?s1)) ''category'' =
                   (if property ?td ''category'' = JString [] then JString ''Geral''
                    else property ?td ''category'')"
    using c by (simp add: newTransaction_def mkTransaction_def js_or_def)
  ultimately show ?thesis by blast
qed

text \<open>
  C5. When the insert that follows the optimistic append fails, the record stays in the
  ledger in memory; the failure is shown as a dialog and nothing else: the submission
  ends without an exception, with status SUCCESS and the reply in the chat. (The dialog
  is an \<^verbatim>\<open>alert\<close>; that it does not stop the submission is what is stated.)
\<close>

theorem failed_insert_keeps_record:
  assumes user: "currentUser s = Some u"
    and input: "present text \<or> present imageUri0 \<or> present audio"
    and outcome: "classification e text imageUri0 audio s = Inr r"
    and typed: "isGeminiAnalysisResult r"
    and add: "property r ''action'' = JString ''ADD_TRANSACTION''"
    and data: "property r ''transactionData'' \<noteq> JUndefined"
    and fails: "remoteFails e s"
  shows "fst (processSubmission e text imageUri0 audio s) = None \<and>
         status (snd (processSubmission e text imageUri0 audio s)) = SUCCESS \<and>
         transactions (snd (processSubmission e text imageUri0 audio s)) =
           transactions s @ [newTransaction e u (property r ''transactionData'') (uuids s + 1)] \<and>
         alerts (snd (processSubmission e text imageUri0 audio s)) =
           alerts s @ [SaveFailedAlert] \<and>
         tbl (store (snd (processSubmission e text imageUri0 audio s))) = tbl (store s) \<and>
         length (chatHistory (snd (processSubmission e text imageUri0 audio s))) =
           length (chatHistory s) + 2 \<and>
         msg_role (last (chatHistory (snd (processSubmission e text imageUri0 audio s)))) = Model"
proof -
  let ?td = "property r ''transactionData''"
  let ?s1 = "submitted e text imageUri0 audio s"
  let ?tx = "newTransaction e u ?td (uuids ?s1)"
  from wellTyped_add[OF typed add data]
  obtain n where a: "get r ''action'' = Inr (JString ''ADD_TRANSACTION'')"
    and t: "truthy ?td"
    and n: "property ?td ''amount'' = JNumber n"
    by blast
  from n have j: "js_or (property ?td ''amount'') (JNumber 0) = JNumber n"
    by (simp add: js_or_def)
  note ap = applyResult_add[OF a t j, of e u ?s1]
  note ps = processSubmission_applies[OF user input outcome]
  from fails have f: "\<not> supabase e \<or> fault e (length (sent (store ?s1)))"
    by (simp add: remoteFails_def submitted_fields)
  obtain kvs where tx: "?tx = JObject kvs"
    by (simp add: newTransaction_def mkTransaction_def)
  from remote_failure(1,2)[OF f, of u kvs] tx
  obtain err where sv: "fst (saveTransaction e u ?tx (store ?s1)) = Inl err"
    and tb: "tbl (snd (saveTransaction e u ?tx (store ?s1))) = tbl (store ?s1)"
    by auto
  have "fst (processSubmission e text imageUri0 audio s) = None"
    using ap(1) ps by simp
  moreover have "status (snd (processSubmission e text imageUri0 audio s)) = SUCCESS"
    using ap(3) ps by simp
  moreover have "transactions (snd (processSubmission e text imageUri0 audio s)) =
           transactions s @ [newTransaction e u ?td (uuids s + 1)]"
    using ap(2) ps by (simp add: submitted_fields)
  moreover have "alerts (snd (processSubmission e text imageUri0 audio s)) =
           alerts s @ [SaveFailedAlert]"
    using ap(5) ps sv by (simp add: submitted_fields)
  moreover have "tbl (store (snd (processSubmission e text imageUri0 audio s))) = tbl (store s)"
    using ap(4) ps tb by (simp add: submitted_fields)
  moreover have "length (chatHistory (snd (processSubmission e text imageUri0 audio s))) =
           length (chatHistory s) + 2"
    using ap(6) ps by (simp add: submitted_fields)
  moreover have "msg_role (last (chatHistory (snd (processSubmission e text imageUri0 audio s)))) = Model"
    using ap(6) ps by simp
  ultimately show ?thesis by blast
qed

text \<open>
  C9. For an outcome with action ADD_TRANSACTION and no transactionData (absent or
  \<^verbatim>\<open>null\<close>), the submission appends nothing: ledger and remote store are unchanged, no
  call is sent, no dialog is shown, and the chat gains the user's message and the reply
  only. Such an outcome conforms to the response schema, in which only action and
  replyMessage are required.
\<close>

theorem add_without_data_appends_nothing:
  "(currentUser s = Some u \<and> (present text \<or> present imageUri0 \<or> present audio) \<and>
    classification e text imageUri0 audio s = Inr r \<and>
    get r ''action'' = Inr (JString ''ADD_TRANSACTION'') \<and>
    \<not> truthy (property r ''transactionData'')
    \<longrightarrow> fst (processSubmission e text imageUri0 audio s) = None \<and>
        transactions (snd (processSubmission e text imageUri0 audio s)) = transactions s \<and>
        store (snd (processSubmission e text imageUri0 audio s)) = store s \<and>
        alerts (snd (processSubmission e text imageUri0 audio s)) = alerts s \<and>
        chatHistory (snd (processSubmission e text imageUri0 audio s)) =
          chatHistory s @
            [userMessage e text imageUri0 audio s,
             \<lparr> msg_id = uuidv4 e (uuids s + 1), msg_role = Model,
               msg_text = Reply (property r ''replyMessage''),
               imageUri = None, isAudio = None \<rparr>]) \<and>
   conforms analysisSchema (addOnly m) \<and>
   get (addOnly m) ''action'' = Inr (JString ''ADD_TRANSACTION'') \<and>
   \<not> truthy (property (addOnly m) ''transactionData'')"
proof -
  have A: "fst (processSubmission e text imageUri0 audio s) = None \<and>
        transactions (snd (processSubmission e text imageUri0 audio s)) = transactions s \<and>
        store (snd (processSubmission e text imageUri0 audio s)) = store s \<and>
        alerts (snd (processSubmission e text imageUri0 audio s)) = alerts s \<and>
        chatHistory (snd (processSubmission e text imageUri0 audio s)) =
          chatHistory s @
            [userMessage e text imageUri0 audio s,
             \<lparr> msg_id = uuidv4 e (uuids s + 1), msg_role = Model,
               msg_text = Reply (property r ''replyMessage''),
               imageUri = None, isAudio = None \<rparr>]"
    if h: "currentUser s = Some u \<and> (present text \<or> present imageUri0 \<or> present audio) \<and>
      classification e text imageUri0 audio s = Inr r \<and>
      get r ''action'' = Inr (JString ''ADD_TRANSACTION'') \<and>
      \<not> truthy (property r ''transactionData'')"
  proof -
    from h have ps: "processSubmission e text imageUri0 audio s =
           applyResult e u r (submitted e text imageUri0 audio s)"
      using processSubmission_applies[of s u "text" imageUri0 audio e r] by blast
    from h have "\<not> (JString ''ADD_TRANSACTION'' = JString ''ADD_TRANSACTION'' \<and>
                     truthy (property r ''transactionData''))"
      by simp
    from applyResult_chat[OF _ this, of e u "submitted e text imageUri0 audio s"] h ps
    show ?thesis
      by (simp add: submitted_fields)
  qed
  have B: "conforms analysisSchema (addOnly m)"
    by (simp add: analysisSchema_def addOnly_def)
  have C: "get (addOnly m) ''action'' = Inr (JString ''ADD_TRANSACTION'') \<and>
           \<not> truthy (property (addOnly m) ''transactionData'')"
    by (simp add: addOnly_def get_def)
  from A B C show ?thesis by blast
qed

text \<open>
  C4. When the delete that follows the optimistic removal of a record of the ledger
  fails, the ledger afterwards is the ledger before the removal: the record is in it
  again, with every field as it was. A dialog reports the failure.
\<close>

theorem failed_delete_restores:
  assumes user: "currentUser s = Some u"
    and held: "t \<in> set (transactions s)"
    and fails: "remoteFails e s"
  shows "transactions (handleDeleteTransaction e (property t ''id'') True s) = transactions s \<and>
         t \<in> set (transactions (handleDeleteTransaction e (property t ''id'') True s)) \<and>
         alerts (handleDeleteTransaction e (property t ''id'') True s) =
           alerts s @ [DeleteFailedAlert] \<and>
         tbl (store (handleDeleteTransaction e (property t ''id'') True s)) = tbl (store s)"
proof -
  let ?i = "property t ''id''"
  let ?s1 = "s\<lparr>transactions := filter (\<lambda>x. property x ''id'' \<noteq> ?i) (transactions s)\<rparr>"
  from fails have f: "\<not> supabase e \<or> fault e (length (sent (store ?s1)))"
    by (simp add: remoteFails_def)
  from remote_failure(3,4)[OF f, of u ?i]
  obtain err where d: "fst (deleteTransaction e u ?i (store ?s1)) = Inl err"
    and tb: "tbl (snd (deleteTransaction e u ?i (store ?s1))) = tbl (store ?s1)"
    by auto
  from user d have "handleDeleteTransaction e ?i True s =
      ?s1\<lparr>store := snd (deleteTransaction e u ?i (store ?s1)),
           transactions := transactions s,
           alerts := alerts ?s1 @ [DeleteFailedAlert]\<rparr>"
    by (simp add: handleDeleteTransaction_def Let_def)
  with held tb show ?thesis by simp
qed

section \<open>The gateway\<close>

lemma buildParts_empty:
  "(buildParts text imageBase64 audioBase64 = []) =
     (\<not> present text \<and> \<not> present imageBase64 \<and> \<not> present audioBase64)"
  by (simp add: buildParts_def)

lemma try_no_input:
  assumes "\<not> present text" "\<not> present imageBase64" "\<not> present audioBase64"
  shows "processInputWithGemini_try e text imageBase64 audioBase64 sys reqs =
           (Inl NoInputProvided, reqs)"
  using assms by (simp add: processInputWithGemini_try_def buildParts_empty)

lemma try_with_input:
  assumes "present text \<or> present imageBase64 \<or> present audioBase64"
  shows "\<exists>req. processInputWithGemini_try e text imageBase64 audioBase64 sys reqs =
           (serviceAnswer e req, reqs @ [req])"
proof -
  let ?req = "\<lparr> modelName = selectModel audioBase64,
                 parts = buildParts text imageBase64 audioBase64,
                 instruction = sys \<rparr>"
  from assms have ne: "buildParts text imageBase64 audioBase64 \<noteq> []"
    by (simp add: buildParts_empty)
  have "processInputWithGemini_try e text imageBase64 audioBase64 sys reqs =
           (serviceAnswer e ?req, reqs @ [?req])"
    using ne
    by (simp add: processInputWithGemini_try_def Let_def serviceAnswer_def
          split: gen_result.split option.split)
  then show ?thesis by blast
qed

lemma gateway_no_input:
  assumes "\<not> present text" "\<not> present imageBase64" "\<not> present audioBase64"
  shows "processInputWithGemini e text imageBase64 audioBase64 currentHistory customPersonality reqs =
           (Inr fallbackResult, reqs)"
  by (simp add: processInputWithGemini_def Let_def try_no_input[OF assms])

lemma gateway_with_input:
  assumes "present text \<or> present imageBase64 \<or> present audioBase64"
  shows "\<exists>req. processInputWithGemini e text imageBase64 audioBase64 currentHistory customPersonality reqs =
           ((case serviceAnswer e req of Inl err \<Rightarrow> Inr fallbackResult | Inr v \<Rightarrow> Inr v),
            reqs @ [req])"
proof -
  from try_with_input[OF assms, of e "buildInstruction e currentHistory customPersonality" reqs]
  obtain req where
    t: "processInputWithGemini_try e text imageBase64 audioBase64
          (buildInstruction e currentHistory customPersonality) reqs =
           (serviceAnswer e req, reqs @ [req])"
    by blast
  have "processInputWithGemini e text imageBase64 audioBase64 currentHistory customPersonality reqs =
           ((case serviceAnswer e req of Inl err \<Rightarrow> Inr fallbackResult | Inr v \<Rightarrow> Inr v),
            reqs @ [req])"
    unfolding processInputWithGemini_def Let_def t
    by (cases "serviceAnswer e req") simp_all
  then show ?thesis by blast
qed

lemma fallback_wellformed: "isGeminiAnalysisResult fallbackResult"
  by (simp add: isGeminiAnalysisResult_def fallbackResult_def)

text \<open>
  C1, as the code has it. The gateway never raises. When no request was sent (there was
  no input), when the call fails, when the response has no text, and when the text does
  not parse, it returns the ChatOnly fallback with the fixed apology, which has the
  declared type of an outcome. When the text parses, it returns the parsed value as it
  is, without checking it against the schema.
\<close>

theorem gateway_always_answers:
  "(\<exists>v. fst (processInputWithGemini e text imageBase64 audioBase64 currentHistory
               customPersonality reqs) = Inr v) \<and>
   (snd (processInputWithGemini e text imageBase64 audioBase64 currentHistory
               customPersonality reqs) = reqs
      \<longrightarrow> fst (processInputWithGemini e text imageBase64 audioBase64 currentHistory
               customPersonality reqs) = Inr fallbackResult) \<and>
   (\<forall>req. snd (processInputWithGemini e text imageBase64 audioBase64 currentHistory
               customPersonality reqs) = reqs @ [req]
      \<longrightarrow> fst (processInputWithGemini e text imageBase64 audioBase64 currentHistory
               customPersonality reqs) =
          (case generateContent e req of
             Rejected \<Rightarrow> Inr fallbackResult
           | Responded responseText \<Rightarrow>
               if \<not> present responseText then Inr fallbackResult
               else (case json_parse e (the responseText) of
                       None \<Rightarrow> Inr fallbackResult
                     | Some v \<Rightarrow> Inr v))) \<and>
   isGeminiAnalysisResult fallbackResult"
proof (cases "present text \<or> present imageBase64 \<or> present audioBase64")
  case False
  then show ?thesis
    using gateway_no_input[of "text" imageBase64 audioBase64 e currentHistory customPersonality reqs]
    by (simp add: fallback_wellformed)
next
  case True
  from gateway_with_input[OF this, of e currentHistory customPersonality reqs]
  obtain req where g: "processInputWithGemini e text imageBase64 audioBase64 currentHistory
           customPersonality reqs =
           ((case serviceAnswer e req of Inl err \<Rightarrow> Inr fallbackResult | Inr v \<Rightarrow> Inr v),
            reqs @ [req])"
    by blast
  show ?thesis
    unfolding g
    by (simp add: fallback_wellformed serviceAnswer_def
          split: sum.split gen_result.split option.split)
qed

lemma fallback_action: "get fallbackResult ''action'' = Inr (JString ''CHAT_ONLY'')"
  by (simp add: get_def fallbackResult_def)

lemma fallback_reply: "property fallbackResult ''replyMessage'' = JString apologyText"
  by (simp add: fallbackResult_def)

text \<open>
  A submission whose image has no bytes, with no text and no audio: the gateway is
  called, sends nothing and answers with the fallback, which is applied as a chat reply.
\<close>

lemma submission_without_bytes:
  assumes user: "currentUser s = Some user"
    and uri: "present imageUri0"
    and none: "\<not> present text" "\<not> present (imagePayload imageUri0)" "\<not> present audio"
  shows "processSubmission e text imageUri0 audio s =
           (None,
            (submitted e text imageUri0 audio s)
              \<lparr>uuids := uuids s + 2,
                chatHistory := chatHistory s @
                  [userMessage e text imageUri0 audio s,
                   \<lparr> msg_id = uuidv4 e (uuids s + 1), msg_role = Model,
                     msg_text = Reply (JString apologyText),
                     imageUri = None, isAudio = None \<rparr>],
                status := SUCCESS\<rparr>)"
    and "asked (submitted e text imageUri0 audio s) = asked s"
proof -
  from gateway_no_input[OF none, of e "transactions s" "aiPersonality s" "asked s"]
  have g: "processInputWithGemini e text (imagePayload imageUri0) audio
             (transactions s) (aiPersonality s) (asked s) = (Inr fallbackResult, asked s)" .
  then have c: "classification e text imageUri0 audio s = Inr fallbackResult"
    by (simp add: classification_def)
  from uri have i: "present text \<or> present imageUri0 \<or> present audio" by simp
  have n: "\<not> (JString ''CHAT_ONLY'' = JString ''ADD_TRANSACTION'' \<and>
               truthy (property fallbackResult ''transactionData''))"
    by simp
  from processSubmission_applies[OF user i c]
    applyResult_chat[OF fallback_action n, of e user "submitted e text imageUri0 audio s"]
  show "processSubmission e text imageUri0 audio s =
           (None,
            (submitted e text imageUri0 audio s)
              \<lparr>uuids := uuids s + 2,
                chatHistory := chatHistory s @
                  [userMessage e text imageUri0 audio s,
                   \<lparr> msg_id = uuidv4 e (uuids s + 1), msg_role = Model,
                     msg_text = Reply (JString apologyText),
                     imageUri = None, isAudio = None \<rparr>],
                status := SUCCESS\<rparr>)"
    by (simp add: submitted_fields fallback_reply)
  from g show "asked (submitted e text imageUri0 audio s) = asked s"
    by (simp add: submitted_def)
qed

lemma submission_no_user:
  "currentUser s = None \<Longrightarrow> processSubmission e text imageUri0 audio s = (None, s)"
  by (simp add: processSubmission_def)

lemma no_bytes_quiet:
  assumes none: "\<not> present text" "\<not> present (imagePayload imageUri0)" "\<not> present audio"
  shows "fst (processSubmission e text imageUri0 audio s) = None \<and>
         asked (snd (processSubmission e text imageUri0 audio s)) = asked s \<and>
         transactions (snd (processSubmission e text imageUri0 audio s)) = transactions s \<and>
         store (snd (processSubmission e text imageUri0 audio s)) = store s \<and>
         alerts (snd (processSubmission e text imageUri0 audio s)) = alerts s"
proof (cases "currentUser s")
  case None
  then show ?thesis by (simp add: submission_no_user)
next
  case (Some user)
  show ?thesis
  proof (cases "present imageUri0")
    case False
    with none show ?thesis by (simp add: processSubmission_nothing)
  next
    case True
    from submission_without_bytes[OF Some True none, of e] show ?thesis
      by (simp add: submitted_fields)
  qed
qed

text \<open>
  C3, as the code has it. With text, image bytes and audio bytes all absent (null or
  empty), no classifier request is sent, no remote call is made and the ledger is
  unchanged, and no error is surfaced: the gateway catches its own "No input provided"
  and returns the ChatOnly fallback, and the submission ends without an exception. When
  the handler is given no text, no image and no audio at all, it returns at once with
  the whole state, chat history included, as it was. When, in a signed-in session, it
  is given an image whose data URI carries no bytes (no comma, or nothing after it),
  with no text and no audio, it still sends no request, but the chat gains the user's
  message and the apology, and the status ends SUCCESS.
\<close>

theorem no_input_no_request:
  "(\<not> present text \<and> \<not> present imageBase64 \<and> \<not> present audioBase64
      \<longrightarrow> processInputWithGemini e text imageBase64 audioBase64 currentHistory
            customPersonality reqs = (Inr fallbackResult, reqs)) \<and>
   (\<not> present text \<and> \<not> present imageUri0 \<and> \<not> present audio
      \<longrightarrow> processSubmission e text imageUri0 audio s = (None, s)) \<and>
   (\<not> present text \<and> \<not> present (imagePayload imageUri0) \<and> \<not> present audio
      \<longrightarrow> fst (processSubmission e text imageUri0 audio s) = None \<and>
          asked (snd (processSubmission e text imageUri0 audio s)) = asked s \<and>
          transactions (snd (processSubmission e text imageUri0 audio s)) = transactions s \<and>
          store (snd (processSubmission e text imageUri0 audio s)) = store s \<and>
          alerts (snd (processSubmission e text imageUri0 audio s)) = alerts s) \<and>
   (currentUser s = Some user \<and> present imageUri0 \<and>
    \<not> present text \<and> \<not> present (imagePayload imageUri0) \<and> \<not> present audio
      \<longrightarrow> chatHistory (snd (processSubmission e text imageUri0 audio s)) =
            chatHistory s @
              [userMessage e text imageUri0 audio s,
               \<lparr> msg_id = uuidv4 e (uuids s + 1), msg_role = Model,
                 msg_text = Reply (JString apologyText),
                 imageUri = None, isAudio = None \<rparr>] \<and>
          status (snd (processSubmission e text imageUri0 audio s)) = SUCCESS)"
proof -
  have A: "\<not> present text \<and> \<not> present imageBase64 \<and> \<not> present audioBase64
      \<longrightarrow> processInputWithGemini e text imageBase64 audioBase64 currentHistory
            customPersonality reqs = (Inr fallbackResult, reqs)"
    using gateway_no_input[of "text" imageBase64 audioBase64 e currentHistory customPersonality reqs]
    by blast
  have B: "\<not> present text \<and> \<not> present imageUri0 \<and> \<not> present audio
      \<longrightarrow> processSubmission e text imageUri0 audio s = (None, s)"
    using processSubmission_nothing[of "text" imageUri0 audio e s] by blast
  have C: "\<not> present text \<and> \<not> present (imagePayload imageUri0) \<and> \<not> present audio
      \<longrightarrow> fst (processSubmission e text imageUri0 audio s) = None \<and>
          asked (snd (processSubmission e text imageUri0 audio s)) = asked s \<and>
          transactions (snd (processSubmission e text imageUri0 audio s)) = transactions s \<and>
          store (snd (processSubmission e text imageUri0 audio s)) = store s \<and>
          alerts (snd (processSubmission e text imageUri0 audio s)) = alerts s"
    using no_bytes_quiet[of "text" imageUri0 audio e s] by blast
  have D: "currentUser s = Some user \<and> present imageUri0 \<and>
    \<not> present text \<and> \<not> present (imagePayload imageUri0) \<and> \<not> present audio
      \<longrightarrow> chatHistory (snd (processSubmission e text imageUri0 audio s)) =
            chatHistory s @
              [userMessage e text imageUri0 audio s,
               \<lparr> msg_id = uuidv4 e (uuids s + 1), msg_role = Model,
                 msg_text = Reply (JString apologyText),
                 imageUri = None, isAudio = None \<rparr>] \<and>
          status (snd (processSubmission e text imageUri0 audio s)) = SUCCESS"
  proof
    assume h: "currentUser s = Some user \<and> present imageUri0 \<and>
      \<not> present text \<and> \<not> present (imagePayload imageUri0) \<and> \<not> present audio"
    then have u: "currentUser s = Some user" and i: "present imageUri0"
      and n: "\<not> present text" "\<not> present (imagePayload imageUri0)" "\<not> present audio"
      by simp_all
    from submission_without_bytes(1)[OF u i n, of e]
    show "chatHistory (snd (processSubmission e text imageUri0 audio s)) =
            chatHistory s @
              [userMessage e text imageUri0 audio s,
               \<lparr> msg_id = uuidv4 e (uuids s + 1), msg_role = Model,
                 msg_text = Reply (JString apologyText),
                 imageUri = None, isAudio = None \<rparr>] \<and>
          status (snd (processSubmission e text imageUri0 audio s)) = SUCCESS"
      by simp
  qed
  show ?thesis
    by (intro conjI) (rule A B C D)+
qed

section \<open>The remote store\<close>

lemma matches_owner:
  assumes "Eq ''user_id'' (JString owner) \<in> set fs" "matches fs r"
  shows "row_user_id r = owner"
proof -
  from assms have "holds r (Eq ''user_id'' (JString owner))"
    unfolding matches_def list_all_iff by blast
  then show ?thesis by simp
qed

lemma exec_scoped:
  assumes "scoped owner q"
  shows "foreign owner (fst (exec q rows)) = foreign owner rows"
    and "list_all (\<lambda>r. row_user_id r = owner) (snd (exec q rows))"
proof -
  show "foreign owner (fst (exec q rows)) = foreign owner rows"
  proof (cases q)
    case (Select fs)
    then show ?thesis by simp
  next
    case (Insert rs)
    with assms show ?thesis by (simp add: foreign_def list_all_iff)
  next
    case (Delete fs)
    with assms have "\<And>r. matches fs r \<Longrightarrow> row_user_id r = owner"
      using matches_owner by simp
    then have "filter (\<lambda>r. row_user_id r \<noteq> owner) (filter (\<lambda>r. \<not> matches fs r) rows) =
               filter (\<lambda>r. row_user_id r \<noteq> owner) rows"
      by (induction rows) auto
    with Delete show ?thesis by (simp add: foreign_def)
  qed
  show "list_all (\<lambda>r. row_user_id r = owner) (snd (exec q rows))"
  proof (cases q)
    case (Select fs)
    with assms show ?thesis using matches_owner by (auto simp add: list_all_iff)
  qed simp_all
qed

lemma send_scoped:
  assumes "scoped owner q"
  shows "foreign owner (tbl (snd (send e q w))) = foreign owner (tbl w)"
    and "list_all (\<lambda>r. row_user_id r = owner) (snd (fst (send e q w)))"
    and "sent (snd (send e q w)) = sent w @ [q]"
  using exec_scoped[OF assms] by (simp_all add: send_def)



lemma payload_owner:
  "map_raise (payload user) ts = Inr ps \<Longrightarrow> list_all (\<lambda>r. row_user_id r = user_id user) ps"
proof (induction ts arbitrary: ps)
  case Nil
  then show ?case by simp
next
  case (Cons t ts)
  then show ?case
    by (auto simp add: payload_def split: if_splits sum.splits)
qed







lemma import_accepted:
  assumes "currentUser s = Some user"
    and "parsedFile e file = Some (JArray xs)"
    and "every validEntry xs = Inr True"
  shows "handleImportData e file True s =
           (case fst (updateAllTransactions e user xs (store s)) of
              Inl err \<Rightarrow>
                s\<lparr>isLoading := True,
                  store := snd (updateAllTransactions e user xs (store s)),
                  alerts := alerts s @ [ReadErrorAlert]\<rparr>
            | Inr u \<Rightarrow>
                s\<lparr>isLoading := False,
                  store := snd (updateAllTransactions e user xs (store s)),
                  transactions := xs,
                  alerts := alerts s @ [RestoredAlert],
                  showSettings := False\<rparr>)"
proof -
  from assms(2) obtain content where "file = Some content" "json_parse e content = Some (JArray xs)"
    by (cases "file") (simp_all add: parsedFile_def)
  with assms(1,3) show ?thesis
    by (simp add: handleImportData_def Let_def split: sum.split)
qed



lemma import_declined:
  "transactions (handleImportData e file False s) = transactions s \<and>
   store (handleImportData e file False s) = store s"
  by (simp add: handleImportData_def split: option.split jsval.split sum.split)







lemma select_owner_rows:
  "filter (matches [Eq ''user_id'' (JString owner)]) rows = owned owner rows"
proof -
  have "matches [Eq ''user_id'' (JString owner)] = (\<lambda>r. row_user_id r = owner)"
    by (rule ext) (simp add: matches_def)
  then show ?thesis by (simp add: owned_def)
qed

lemma list_scoped:
  "sent (snd (getTransactions e user w)) = sent w \<or>
   sent (snd (getTransactions e user w)) =
     sent w @ [Select [Eq ''user_id'' (JString (user_id user))]]"
  "tbl (snd (getTransactions e user w)) = tbl w"
  "fst (getTransactions e user w) = Inr txs \<Longrightarrow>
     txs = map (transaction_of_row e) (owned (user_id user) (tbl w))"
  by (auto simp add: getTransactions_def send_def Let_def select_owner_rows split: if_splits)

lemma insert_scoped:
  "sent (snd (saveTransaction e user t w)) = sent w \<or>
   (\<exists>p. sent (snd (saveTransaction e user t w)) = sent w @ [Insert [p]] \<and>
        row_user_id p = user_id user \<and> row_id p = property t ''id'')"
  "foreign (user_id user) (tbl (snd (saveTransaction e user t w))) =
     foreign (user_id user) (tbl w)"
  by (auto simp add: saveTransaction_def payload_def send_def Let_def foreign_def)

lemma delete_scoped:
  "sent (snd (deleteTransaction e user i w)) = sent w \<or>
   sent (snd (deleteTransaction e user i w)) =
     sent w @ [Delete [Eq ''id'' i, Eq ''user_id'' (JString (user_id user))]]"
  "foreign (user_id user) (tbl (snd (deleteTransaction e user i w))) =
     foreign (user_id user) (tbl w)"
proof -
  show "sent (snd (deleteTransaction e user i w)) = sent w \<or>
   sent (snd (deleteTransaction e user i w)) =
     sent w @ [Delete [Eq ''id'' i, Eq ''user_id'' (JString (user_id user))]]"
    by (simp add: deleteTransaction_def send_def Let_def)
  have "scoped (user_id user) (Delete [Eq ''id'' i, Eq ''user_id'' (JString (user_id user))])"
    by simp
  from send_scoped(1)[OF this, of e w]
  show "foreign (user_id user) (tbl (snd (deleteTransaction e user i w))) =
     foreign (user_id user) (tbl w)"
    by (simp add: deleteTransaction_def Let_def)
qed

lemma bulk_scoped:
  "\<exists>qs. sent (snd (updateAllTransactions e user ts w)) = sent w @ qs \<and>
        list_all (scoped (user_id user)) qs"
  "foreign (user_id user) (tbl (snd (updateAllTransactions e user ts w))) =
     foreign (user_id user) (tbl w)"
proof -
  let ?del = "Delete [Eq ''user_id'' (JString (user_id user))]"
  let ?w1 = "snd (send e ?del w)"
  have d: "scoped (user_id user) ?del" by simp
  note d1 = send_scoped[OF d, of e w]
  show "\<exists>qs. sent (snd (updateAllTransactions e user ts w)) = sent w @ qs \<and>
        list_all (scoped (user_id user)) qs"
  proof (cases "supabase e")
    case False
    then have "sent (snd (updateAllTransactions e user ts w)) = sent w @ []"
      by (simp add: updateAllTransactions_def)
    moreover have "list_all (scoped (user_id user)) []" by simp
    ultimately show ?thesis by blast
  next
    case True
    show ?thesis
    proof (cases "map_raise (payload user) ts")
      case (Inl err)
      with True d1(3) have "sent (snd (updateAllTransactions e user ts w)) = sent w @ [?del]"
        by (simp add: updateAllTransactions_def Let_def)
      moreover have "list_all (scoped (user_id user)) [?del]" by simp
      ultimately show ?thesis by blast
    next
      case (Inr ps)
      from payload_owner[OF Inr] have i: "scoped (user_id user) (Insert ps)" by simp
      from send_scoped(3)[OF i, of e ?w1] d1(3)
      have "sent (snd (send e (Insert ps) ?w1)) = sent w @ [?del, Insert ps]" by simp
      with True Inr d1(3)
      have "sent (snd (updateAllTransactions e user ts w)) = sent w @ [?del] \<or>
            sent (snd (updateAllTransactions e user ts w)) = sent w @ [?del, Insert ps]"
        by (simp add: updateAllTransactions_def Let_def)
      moreover have "list_all (scoped (user_id user)) [?del]" by simp
      moreover from i have "list_all (scoped (user_id user)) [?del, Insert ps]" by simp
      ultimately show ?thesis by blast
    qed
  qed
  show "foreign (user_id user) (tbl (snd (updateAllTransactions e user ts w))) =
     foreign (user_id user) (tbl w)"
  proof (cases "supabase e")
    case False
    then show ?thesis by (simp add: updateAllTransactions_def)
  next
    case True
    show ?thesis
    proof (cases "map_raise (payload user) ts")
      case (Inl err)
      with True d1(1) show ?thesis
        by (simp add: updateAllTransactions_def Let_def)
    next
      case (Inr ps)
      from payload_owner[OF Inr] have i: "scoped (user_id user) (Insert ps)" by simp
      from send_scoped(1)[OF i, of e ?w1] d1(1)
      have "foreign (user_id user) (tbl (snd (send e (Insert ps) ?w1))) =
            foreign (user_id user) (tbl w)" by simp
      with True Inr d1(1) show ?thesis
        by (simp add: updateAllTransactions_def Let_def)
    qed
  qed
qed

lemma row_userId: "property (transaction_of_row e r) ''userId'' = JString (row_user_id r)"
  by (simp add: transaction_of_row_def mkTransaction_def)

lemma gateway_returns:
  "\<exists>v. fst (processInputWithGemini e text imageBase64 audioBase64 currentHistory
              customPersonality reqs) = Inr v"
proof (cases "present text \<or> present imageBase64 \<or> present audioBase64")
  case False
  then show ?thesis
    using gateway_no_input[of "text" imageBase64 audioBase64 e currentHistory customPersonality reqs]
    by simp
next
  case True
  from gateway_with_input[OF this, of e currentHistory customPersonality reqs]
  obtain req where "processInputWithGemini e text imageBase64 audioBase64 currentHistory
           customPersonality reqs =
           ((case serviceAnswer e req of Inl err \<Rightarrow> Inr fallbackResult | Inr v \<Rightarrow> Inr v),
            reqs @ [req])"
    by blast
  then show ?thesis
    by (cases "serviceAnswer e req") simp_all
qed

lemma applyResult_store:
  "store (snd (applyResult e u r s)) = store s \<or>
   store (snd (applyResult e u r s)) =
     snd (saveTransaction e u (newTransaction e u (property r ''transactionData'') (uuids s))
            (store s))"
proof (cases "get r ''action''")
  case (Inl err)
  then show ?thesis by (simp add: applyResult_def)
next
  case (Inr a)
  show ?thesis
  proof (cases "a = JString ''ADD_TRANSACTION'' \<and> truthy (property r ''transactionData'')")
    case False
    from applyResult_chat[OF Inr False, of e u s] show ?thesis by simp
  next
    case True
    with Inr show ?thesis
      by (simp add: applyResult_def Let_def split: jsval.split)
  qed
qed

lemma scoped_none: "sent w' = sent w \<Longrightarrow> \<exists>qs. sent w' = sent w @ qs \<and> list_all (scoped owner) qs"
proof -
  assume "sent w' = sent w"
  then have "sent w' = sent w @ []" by simp
  moreover have "list_all (scoped owner) []" by simp
  ultimately show ?thesis by blast
qed

lemma scoped_one:
  "sent w' = sent w @ [q] \<Longrightarrow> scoped owner q \<Longrightarrow>
     \<exists>qs. sent w' = sent w @ qs \<and> list_all (scoped owner) qs"
proof -
  assume a: "sent w' = sent w @ [q]" and b: "scoped owner q"
  from b have "list_all (scoped owner) [q]" by simp
  with a show ?thesis by blast
qed

lemma save_scoped:
  "\<exists>qs. sent (snd (saveTransaction e user t w)) = sent w @ qs \<and>
        list_all (scoped (user_id user)) qs"
proof -
  from insert_scoped(1)[of e user t w]
  consider "sent (snd (saveTransaction e user t w)) = sent w"
    | p where "sent (snd (saveTransaction e user t w)) = sent w @ [Insert [p]]"
        "row_user_id p = user_id user"
    by blast
  then show ?thesis
  proof cases
    case 1
    then show ?thesis by (rule scoped_none)
  next
    case 2
    from 2(2) have "scoped (user_id user) (Insert [p])" by simp
    with 2(1) show ?thesis by (rule scoped_one)
  qed
qed

lemma remove_scoped:
  "\<exists>qs. sent (snd (deleteTransaction e user i w)) = sent w @ qs \<and>
        list_all (scoped (user_id user)) qs"
proof -
  from delete_scoped(1)[of e user i w]
  consider "sent (snd (deleteTransaction e user i w)) = sent w"
    | "sent (snd (deleteTransaction e user i w)) =
         sent w @ [Delete [Eq ''id'' i, Eq ''user_id'' (JString (user_id user))]]"
    by blast
  then show ?thesis
  proof cases
    case 1
    then show ?thesis by (rule scoped_none)
  next
    case 2
    have "scoped (user_id user) (Delete [Eq ''id'' i, Eq ''user_id'' (JString (user_id user))])"
      by simp
    with 2 show ?thesis by (rule scoped_one)
  qed
qed

lemma submission_scoped:
  assumes "currentUser s = Some user"
  shows "\<exists>qs. sent (store (snd (processSubmission e text imageUri0 audio s))) =
               sent (store s) @ qs \<and>
             list_all (scoped (user_id user)) qs"
proof (cases "present text \<or> present imageUri0 \<or> present audio")
  case False
  then have "processSubmission e text imageUri0 audio s = (None, s)"
    by (simp add: processSubmission_nothing)
  then have "sent (store (snd (processSubmission e text imageUri0 audio s))) = sent (store s)"
    by simp
  then show ?thesis by (rule scoped_none)
next
  case True
  from gateway_returns obtain r where c: "classification e text imageUri0 audio s = Inr r"
    unfolding classification_def by blast
  let ?s1 = "submitted e text imageUri0 audio s"
  from processSubmission_applies[OF assms True c]
  have ps: "processSubmission e text imageUri0 audio s = applyResult e user r ?s1" .
  from applyResult_store[of e user r ?s1]
  consider "store (snd (applyResult e user r ?s1)) = store s"
    | "store (snd (applyResult e user r ?s1)) =
         snd (saveTransaction e user
                (newTransaction e user (property r ''transactionData'') (uuids ?s1)) (store s))"
    by (auto simp add: submitted_fields)
  then show ?thesis
  proof cases
    case 1
    with ps have "sent (store (snd (processSubmission e text imageUri0 audio s))) = sent (store s)"
      by simp
    then show ?thesis by (rule scoped_none)
  next
    case 2
    with ps save_scoped[of e user
        "newTransaction e user (property r ''transactionData'') (uuids ?s1)" "store s"]
    show ?thesis by simp
  qed
qed

lemma removal_scoped:
  assumes "currentUser s = Some user"
  shows "\<exists>qs. sent (store (handleDeleteTransaction e i confirmed s)) = sent (store s) @ qs \<and>
             list_all (scoped (user_id user)) qs"
proof (cases confirmed)
  case False
  with assms have "sent (store (handleDeleteTransaction e i confirmed s)) = sent (store s)"
    by (simp add: handleDeleteTransaction_def)
  then show ?thesis by (rule scoped_none)
next
  case True
  with assms have "store (handleDeleteTransaction e i confirmed s) =
                   snd (deleteTransaction e user i (store s))"
    by (simp add: handleDeleteTransaction_def Let_def split: sum.split)
  with remove_scoped[of e user i "store s"] show ?thesis by simp
qed

lemma import_scoped:
  assumes "currentUser s = Some user"
  shows "\<exists>qs. sent (store (handleImportData e file confirmed s)) = sent (store s) @ qs \<and>
             list_all (scoped (user_id user)) qs"
proof (cases "\<exists>xs. parsedFile e file = Some (JArray xs) \<and> every validEntry xs = Inr True")
  case False
  from import_rejected[OF False, of confirmed s]
  have "sent (store (handleImportData e file confirmed s)) = sent (store s)"
    by auto
  then show ?thesis by (rule scoped_none)
next
  case True
  then obtain xs where p: "parsedFile e file = Some (JArray xs)"
    and v: "every validEntry xs = Inr True"
    by blast
  show ?thesis
  proof (cases confirmed)
    case False
    with import_declined[of e "file" s]
    have "sent (store (handleImportData e file confirmed s)) = sent (store s)"
      by simp
    then show ?thesis by (rule scoped_none)
  next
    case True
    from import_accepted[OF assms p v]
    have "store (handleImportData e file True s) =
          snd (updateAllTransactions e user xs (store s))"
      by (simp split: sum.split)
    with True bulk_scoped(1)[of e user xs "store s"] show ?thesis by simp
  qed
qed

text \<open>
  C7. Every call the API sends for a session is scoped by the session's user id. The
  read selects on \<^verbatim>\<open>user_id\<close> and returns the owner's rows only; the insert sets
  \<^verbatim>\<open>user_id\<close> of the row to the session's id, whatever \<^verbatim>\<open>userId\<close> the record carries;
  the delete filters on the record id and on \<^verbatim>\<open>user_id\<close>; the bulk replacement deletes
  and inserts under the session's id. None of them changes a row of another owner. The
  handlers call the API with the current user: every query a submission, a removal or
  an import sends is scoped by the id of \<^verbatim>\<open>currentUser\<close>.
\<close>

theorem remote_calls_owner_scoped:
  "(sent (snd (getTransactions e user w)) = sent w \<or>
    sent (snd (getTransactions e user w)) =
      sent w @ [Select [Eq ''user_id'' (JString (user_id user))]]) \<and>
   tbl (snd (getTransactions e user w)) = tbl w \<and>
   (\<forall>txs. fst (getTransactions e user w) = Inr txs \<longrightarrow>
      txs = map (transaction_of_row e) (owned (user_id user) (tbl w)) \<and>
      list_all (\<lambda>t. property t ''userId'' = JString (user_id user)) txs) \<and>
   (sent (snd (saveTransaction e user t w)) = sent w \<or>
    (\<exists>p. sent (snd (saveTransaction e user t w)) = sent w @ [Insert [p]] \<and>
         row_user_id p = user_id user \<and> row_id p = property t ''id'')) \<and>
   foreign (user_id user) (tbl (snd (saveTransaction e user t w))) =
     foreign (user_id user) (tbl w) \<and>
   (sent (snd (deleteTransaction e user i w)) = sent w \<or>
    sent (snd (deleteTransaction e user i w)) =
      sent w @ [Delete [Eq ''id'' i, Eq ''user_id'' (JString (user_id user))]]) \<and>
   foreign (user_id user) (tbl (snd (deleteTransaction e user i w))) =
     foreign (user_id user) (tbl w) \<and>
   (\<exists>qs. sent (snd (updateAllTransactions e user ts w)) = sent w @ qs \<and>
         list_all (scoped (user_id user)) qs) \<and>
   foreign (user_id user) (tbl (snd (updateAllTransactions e user ts w))) =
     foreign (user_id user) (tbl w) \<and>
   (currentUser s = Some user \<longrightarrow>
      (\<exists>qs. sent (store (snd (processSubmission e text imageUri0 audio s))) =
              sent (store s) @ qs \<and>
            list_all (scoped (user_id user)) qs) \<and>
      (\<exists>qs. sent (store (handleDeleteTransaction e i confirmed s)) = sent (store s) @ qs \<and>
            list_all (scoped (user_id user)) qs) \<and>
      (\<exists>qs. sent (store (handleImportData e file confirmed s)) = sent (store s) @ qs \<and>
            list_all (scoped (user_id user)) qs))"
proof -
  have L: "txs = map (transaction_of_row e) (owned (user_id user) (tbl w)) \<and>
           list_all (\<lambda>t. property t ''userId'' = JString (user_id user)) txs"
    if h: "fst (getTransactions e user w) = Inr txs" for txs
  proof -
    from list_scoped(3)[OF h]
    have eq: "txs = map (transaction_of_row e) (owned (user_id user) (tbl w))" .
    then have "list_all (\<lambda>t. property t ''userId'' = JString (user_id user)) txs"
      by (simp add: list_all_iff owned_def row_userId)
    with eq show ?thesis by simp
  qed
  note a = list_scoped(1,2)[where e = e and user = user and w = w]
  note b = insert_scoped[where e = e and user = user and t = t and w = w]
  note c = delete_scoped[where e = e and user = user and i = i and w = w]
  note d = bulk_scoped[where e = e and user = user and ts = ts and w = w]
  from L have l: "\<forall>txs. fst (getTransactions e user w) = Inr txs \<longrightarrow>
      txs = map (transaction_of_row e) (owned (user_id user) (tbl w)) \<and>
      list_all (\<lambda>t. property t ''userId'' = JString (user_id user)) txs"
    by blast
  have H: "currentUser s = Some user \<longrightarrow>
      (\<exists>qs. sent (store (snd (processSubmission e text imageUri0 audio s))) =
              sent (store s) @ qs \<and>
            list_all (scoped (user_id user)) qs) \<and>
      (\<exists>qs. sent (store (handleDeleteTransaction e i confirmed s)) = sent (store s) @ qs \<and>
            list_all (scoped (user_id user)) qs) \<and>
      (\<exists>qs. sent (store (handleImportData e file confirmed s)) = sent (store s) @ qs \<and>
            list_all (scoped (user_id user)) qs)"
  proof
    assume u: "currentUser s = Some user"
    show "(\<exists>qs. sent (store (snd (processSubmission e text imageUri0 audio s))) =
              sent (store s) @ qs \<and>
            list_all (scoped (user_id user)) qs) \<and>
      (\<exists>qs. sent (store (handleDeleteTransaction e i confirmed s)) = sent (store s) @ qs \<and>
            list_all (scoped (user_id user)) qs) \<and>
      (\<exists>qs. sent (store (handleImportData e file confirmed s)) = sent (store s) @ qs \<and>
            list_all (scoped (user_id user)) qs)"
      by (intro conjI)
        (rule submission_scoped[OF u] removal_scoped[OF u] import_scoped[OF u])+
  qed
  show ?thesis
    by (intro conjI) (rule a b c d l H)+
qed

section \<open>The theorems on sample runs\<close>

lemmas run_defs =
  classification_def processInputWithGemini_def processInputWithGemini_try_def
  buildParts_def buildInstruction_def selectModel_def imagePayload_def
  answering_def sampleEnv_def sampleState_def sampleUser_def Let_def


lemma texts_nonempty:
  "breadText \<noteq> []" "noCategoryText \<noteq> []" "addOnlyText \<noteq> []"
  by (simp_all add: breadText_def noCategoryText_def addOnlyText_def)

theorem appended_record_matches_witness:
  "currentUser (sampleState [coffee] []) = Some sampleUser \<and>
   classification (answering breadText breadValue (\<lambda>n. False))
     (Some ''Spent 30 on bakery today'') None None (sampleState [coffee] []) = Inr breadValue \<and>
   isGeminiAnalysisResult breadValue \<and>
   property breadValue ''action'' = JString ''ADD_TRANSACTION'' \<and>
   property breadValue ''transactionData'' \<noteq> JUndefined \<and>
   (\<exists>tx. transactions (snd (processSubmission (answering breadText breadValue (\<lambda>n. False))
                               (Some ''Spent 30 on bakery today'') None None
                               (sampleState [coffee] []))) = [coffee] @ [tx] \<and>
         property tx ''type'' = JString ''expense'' \<and>
         property tx ''amount'' = JNumber 30 \<and>
         property tx ''category'' = JString ''food'')"
proof -
  have u: "currentUser (sampleState [coffee] []) = Some sampleUser"
    by (simp add: sampleState_def)
  have i: "present (Some ''Spent 30 on bakery today'') \<or> present None \<or> present None"
    by simp
  have c: "classification (answering breadText breadValue (\<lambda>n. False))
     (Some ''Spent 30 on bakery today'') None None (sampleState [coffee] []) = Inr breadValue"
    by (simp add: run_defs texts_nonempty)
  have w: "isGeminiAnalysisResult breadValue"
    by (simp add: isGeminiAnalysisResult_def isTransactionData_def breadValue_def)
  have a: "property breadValue ''action'' = JString ''ADD_TRANSACTION''"
    by (simp add: breadValue_def)
  have d: "property breadValue ''transactionData'' \<noteq> JUndefined"
    by (simp add: breadValue_def)
  have t: "transactions (sampleState [coffee] []) = [coffee]"
    by (simp add: sampleState_def)
  from appended_record_matches[OF u i c w a d] t
  have "\<exists>tx. transactions (snd (processSubmission (answering breadText breadValue (\<lambda>n. False))
                               (Some ''Spent 30 on bakery today'') None None
                               (sampleState [coffee] []))) = [coffee] @ [tx] \<and>
         property tx ''type'' = JString ''expense'' \<and>
         property tx ''amount'' = JNumber 30 \<and>
         property tx ''category'' = JString ''food''"
    by (simp add: breadValue_def)
  with u c w a d show ?thesis by blast
qed

theorem appended_record_counterexample:
  "isGeminiAnalysisResult noCategoryValue \<and>
   property noCategoryValue ''action'' = JString ''ADD_TRANSACTION'' \<and>
   property (property noCategoryValue ''transactionData'') ''category'' = JString [] \<and>
   classification (answering noCategoryText noCategoryValue (\<lambda>n. False))
     (Some ''Spent 30 on bakery today'') None None (sampleState [] []) = Inr noCategoryValue \<and>
   map (\<lambda>tx. property tx ''category'')
     (transactions (snd (processSubmission (answering noCategoryText noCategoryValue (\<lambda>n. False))
                           (Some ''Spent 30 on bakery today'') None None (sampleState [] []))))
     = [JString ''Geral'']"
proof -
  let ?e = "answering noCategoryText noCategoryValue (\<lambda>n. False)"
  let ?s = "sampleState [] []"
  let ?t = "Some ''Spent 30 on bakery today''"
  have w: "isGeminiAnalysisResult noCategoryValue"
    by (simp add: isGeminiAnalysisResult_def isTransactionData_def noCategoryValue_def)
  have a: "property noCategoryValue ''action'' = JString ''ADD_TRANSACTION''"
    by (simp add: noCategoryValue_def)
  have k: "property (property noCategoryValue ''transactionData'') ''category'' = JString []"
    by (simp add: noCategoryValue_def)
  have u: "currentUser ?s = Some sampleUser"
    by (simp add: sampleState_def)
  have i: "present ?t \<or> present None \<or> present None"
    by simp
  have c: "classification ?e ?t None None ?s = Inr noCategoryValue"
    by (simp add: run_defs texts_nonempty)
  have g: "get noCategoryValue ''action'' = Inr (JString ''ADD_TRANSACTION'')"
    by (simp add: get_def noCategoryValue_def)
  have t: "truthy (property noCategoryValue ''transactionData'')"
    by (simp add: noCategoryValue_def)
  have j: "js_or (property (property noCategoryValue ''transactionData'') ''amount'') (JNumber 0)
             = JNumber 30"
    by (simp add: js_or_def noCategoryValue_def)
  have "transactions (snd (processSubmission ?e ?t None None ?s)) =
          transactions ?s @
            [newTransaction ?e sampleUser (property noCategoryValue ''transactionData'')
               (uuids (submitted ?e ?t None None ?s))]"
    using applyResult_add(2)[OF g t j, of ?e sampleUser "submitted ?e ?t None None ?s"]
      processSubmission_applies[OF u i c]
    by (simp add: submitted_fields)
  then have "map (\<lambda>tx. property tx ''category'')
               (transactions (snd (processSubmission ?e ?t None None ?s))) = [JString ''Geral'']"
    using k by (simp add: sampleState_def newTransaction_def mkTransaction_def js_or_def)
  with w a k c show ?thesis by blast
qed

theorem failed_insert_keeps_record_witness:
  "currentUser (sampleState [coffee] []) = Some sampleUser \<and>
   classification (answering breadText breadValue (\<lambda>n. True))
     (Some ''Spent 30 on bakery today'') None None (sampleState [coffee] []) = Inr breadValue \<and>
   isGeminiAnalysisResult breadValue \<and>
   remoteFails (answering breadText breadValue (\<lambda>n. True)) (sampleState [coffee] []) \<and>
   fst (processSubmission (answering breadText breadValue (\<lambda>n. True))
          (Some ''Spent 30 on bakery today'') None None (sampleState [coffee] [])) = None \<and>
   status (snd (processSubmission (answering breadText breadValue (\<lambda>n. True))
          (Some ''Spent 30 on bakery today'') None None (sampleState [coffee] []))) = SUCCESS \<and>
   map (\<lambda>tx. property tx ''description'')
     (transactions (snd (processSubmission (answering breadText breadValue (\<lambda>n. True))
          (Some ''Spent 30 on bakery today'') None None (sampleState [coffee] []))))
     = [JString ''coffee'', JString ''bread''] \<and>
   alerts (snd (processSubmission (answering breadText breadValue (\<lambda>n. True))
          (Some ''Spent 30 on bakery today'') None None (sampleState [coffee] [])))
     = [SaveFailedAlert] \<and>
   tbl (store (snd (processSubmission (answering breadText breadValue (\<lambda>n. True))
          (Some ''Spent 30 on bakery today'') None None (sampleState [coffee] [])))) = []"
proof -
  let ?e = "answering breadText breadValue (\<lambda>n. True)"
  let ?s = "sampleState [coffee] []"
  let ?t = "Some ''Spent 30 on bakery today''"
  have u: "currentUser ?s = Some sampleUser"
    by (simp add: sampleState_def)
  have i: "present ?t \<or> present None \<or> present None"
    by simp
  have c: "classification ?e ?t None None ?s = Inr breadValue"
    by (simp add: run_defs texts_nonempty)
  have w: "isGeminiAnalysisResult breadValue"
    by (simp add: isGeminiAnalysisResult_def isTransactionData_def breadValue_def)
  have a: "property breadValue ''action'' = JString ''ADD_TRANSACTION''"
    by (simp add: breadValue_def)
  have d: "property breadValue ''transactionData'' \<noteq> JUndefined"
    by (simp add: breadValue_def)
  have f: "remoteFails ?e ?s"
    by (simp add: remoteFails_def answering_def sampleEnv_def)
  note r = failed_insert_keeps_record[OF u i c w a d f]
  have l: "map (\<lambda>tx. property tx ''description'')
     (transactions (snd (processSubmission ?e ?t None None ?s)))
     = [JString ''coffee'', JString ''bread'']"
    using r
    by (simp add: sampleState_def coffee_def breadValue_def newTransaction_def mkTransaction_def
          js_or_def)
  from r have "fst (processSubmission ?e ?t None None ?s) = None"
    and "status (snd (processSubmission ?e ?t None None ?s)) = SUCCESS"
    and "alerts (snd (processSubmission ?e ?t None None ?s)) = [SaveFailedAlert]"
    and "tbl (store (snd (processSubmission ?e ?t None None ?s))) = []"
    by (simp_all add: sampleState_def)
  with u c w f l show ?thesis by blast
qed

theorem add_without_data_appends_nothing_witness:
  "currentUser (sampleState [coffee] [coffeeRow]) = Some sampleUser \<and>
   classification (answering addOnlyText (addOnly ''ok'') (\<lambda>n. False))
     (Some ''hello'') None None (sampleState [coffee] [coffeeRow]) = Inr (addOnly ''ok'') \<and>
   conforms analysisSchema (addOnly ''ok'') \<and>
   get (addOnly ''ok'') ''action'' = Inr (JString ''ADD_TRANSACTION'') \<and>
   \<not> truthy (property (addOnly ''ok'') ''transactionData'') \<and>
   fst (processSubmission (answering addOnlyText (addOnly ''ok'') (\<lambda>n. False))
          (Some ''hello'') None None (sampleState [coffee] [coffeeRow])) = None \<and>
   transactions (snd (processSubmission (answering addOnlyText (addOnly ''ok'') (\<lambda>n. False))
          (Some ''hello'') None None (sampleState [coffee] [coffeeRow]))) = [coffee] \<and>
   store (snd (processSubmission (answering addOnlyText (addOnly ''ok'') (\<lambda>n. False))
          (Some ''hello'') None None (sampleState [coffee] [coffeeRow])))
     = \<lparr> tbl = [coffeeRow], sent = [] \<rparr> \<and>
   map msg_text (chatHistory (snd (processSubmission
          (answering addOnlyText (addOnly ''ok'') (\<lambda>n. False))
          (Some ''hello'') None None (sampleState [coffee] [coffeeRow]))))
     = [Literal ''hello'', Reply (JString ''ok'')]"
proof -
  let ?e = "answering addOnlyText (addOnly ''ok'') (\<lambda>n. False)"
  let ?s = "sampleState [coffee] [coffeeRow]"
  let ?t = "Some ''hello''"
  have u: "currentUser ?s = Some sampleUser"
    by (simp add: sampleState_def)
  have i: "present ?t \<or> present None \<or> present None"
    by simp
  have c: "classification ?e ?t None None ?s = Inr (addOnly ''ok'')"
    by (simp add: run_defs texts_nonempty)
  note r = add_without_data_appends_nothing[of ?s sampleUser ?t None None ?e "addOnly ''ok''" "''ok''"]
  from r have k: "conforms analysisSchema (addOnly ''ok'')"
    and g: "get (addOnly ''ok'') ''action'' = Inr (JString ''ADD_TRANSACTION'')"
    and n: "\<not> truthy (property (addOnly ''ok'') ''transactionData'')"
    by blast+
  from r u i c g n
  have "fst (processSubmission ?e ?t None None ?s) = None"
    and "transactions (snd (processSubmission ?e ?t None None ?s)) = transactions ?s"
    and "store (snd (processSubmission ?e ?t None None ?s)) = store ?s"
    and h: "chatHistory (snd (processSubmission ?e ?t None None ?s)) =
          chatHistory ?s @
            [userMessage ?e ?t None None ?s,
             \<lparr> msg_id = uuidv4 ?e (uuids ?s + 1), msg_role = Model,
               msg_text = Reply (property (addOnly ''ok'') ''replyMessage''),
               imageUri = None, isAudio = None \<rparr>]"
    by blast+
  then have "fst (processSubmission ?e ?t None None ?s) = None"
    and "transactions (snd (processSubmission ?e ?t None None ?s)) = [coffee]"
    and "store (snd (processSubmission ?e ?t None None ?s)) = \<lparr> tbl = [coffeeRow], sent = [] \<rparr>"
    and "map msg_text (chatHistory (snd (processSubmission ?e ?t None None ?s)))
           = [Literal ''hello'', Reply (JString ''ok'')]"
    by (simp_all add: sampleState_def userMessage_def addOnly_def)
  with u c k g n show ?thesis by blast
qed

theorem failed_delete_restores_witness:
  "currentUser (sampleState [coffee, freebie] [coffeeRow]) = Some sampleUser \<and>
   coffee \<in> set (transactions (sampleState [coffee, freebie] [coffeeRow])) \<and>
   remoteFails (sampleEnv [] Rejected (\<lambda>n. True)) (sampleState [coffee, freebie] [coffeeRow]) \<and>
   property coffee ''id'' = JString ''t1'' \<and>
   transactions (handleDeleteTransaction (sampleEnv [] Rejected (\<lambda>n. True)) (JString ''t1'') True
                   (sampleState [coffee, freebie] [coffeeRow])) = [coffee, freebie] \<and>
   alerts (handleDeleteTransaction (sampleEnv [] Rejected (\<lambda>n. True)) (JString ''t1'') True
                   (sampleState [coffee, freebie] [coffeeRow])) = [DeleteFailedAlert] \<and>
   tbl (store (handleDeleteTransaction (sampleEnv [] Rejected (\<lambda>n. True)) (JString ''t1'') True
                   (sampleState [coffee, freebie] [coffeeRow]))) = [coffeeRow]"
proof -
  let ?e = "sampleEnv [] Rejected (\<lambda>n. True)"
  let ?s = "sampleState [coffee, freebie] [coffeeRow]"
  have u: "currentUser ?s = Some sampleUser"
    by (simp add: sampleState_def)
  have m: "coffee \<in> set (transactions ?s)"
    by (simp add: sampleState_def)
  have f: "remoteFails ?e ?s"
    by (simp add: remoteFails_def sampleEnv_def)
  have i: "property coffee ''id'' = JString ''t1''"
    by (simp add: coffee_def mkTransaction_def)
  from failed_delete_restores[OF u m f] i
  have "transactions (handleDeleteTransaction ?e (JString ''t1'') True ?s) = [coffee, freebie]"
    and "alerts (handleDeleteTransaction ?e (JString ''t1'') True ?s) = [DeleteFailedAlert]"
    and "tbl (store (handleDeleteTransaction ?e (JString ''t1'') True ?s)) = [coffeeRow]"
    by (simp_all add: sampleState_def)
  with u m f i show ?thesis by blast
qed

theorem gateway_always_answers_witness:
  "snd (processInputWithGemini (answering breadText breadValue (\<lambda>n. False))
          (Some ''hello'') None None [] [] [])
     = [] @ [helloRequest (answering breadText breadValue (\<lambda>n. False))] \<and>
   fst (processInputWithGemini (answering breadText breadValue (\<lambda>n. False))
          (Some ''hello'') None None [] [] []) = Inr breadValue \<and>
   snd (processInputWithGemini (sampleEnv [] Rejected (\<lambda>n. False))
          (Some ''hello'') None None [] [] [])
     = [] @ [helloRequest (sampleEnv [] Rejected (\<lambda>n. False))] \<and>
   fst (processInputWithGemini (sampleEnv [] Rejected (\<lambda>n. False))
          (Some ''hello'') None None [] [] []) = Inr fallbackResult \<and>
   snd (processInputWithGemini (answering breadText breadValue (\<lambda>n. False))
          None None None [] [] []) = [] \<and>
   fst (processInputWithGemini (answering breadText breadValue (\<lambda>n. False))
          None None None [] [] []) = Inr fallbackResult \<and>
   isGeminiAnalysisResult fallbackResult"
proof -
  let ?e = "answering breadText breadValue (\<lambda>n. False)"
  let ?f = "sampleEnv [] Rejected (\<lambda>n. False)"
  let ?t = "Some ''hello''"
  have a: "snd (processInputWithGemini ?e ?t None None [] [] []) = [] @ [helloRequest ?e]"
    by (simp add: processInputWithGemini_def processInputWithGemini_try_def buildParts_def
          selectModel_def helloRequest_def Let_def answering_def sampleEnv_def texts_nonempty)
  have b: "snd (processInputWithGemini ?f ?t None None [] [] []) = [] @ [helloRequest ?f]"
    by (simp add: processInputWithGemini_def processInputWithGemini_try_def buildParts_def
          selectModel_def helloRequest_def Let_def sampleEnv_def)
  have z: "snd (processInputWithGemini ?e None None None [] [] []) = []"
    by (simp add: gateway_no_input)
  note r = gateway_always_answers[of ?e ?t None None "[]" "[]" "[]"]
  note q = gateway_always_answers[of ?f ?t None None "[]" "[]" "[]"]
  note n = gateway_always_answers[of ?e None None None "[]" "[]" "[]"]
  from r a have "fst (processInputWithGemini ?e ?t None None [] [] []) =
          (case generateContent ?e (helloRequest ?e) of
             Rejected \<Rightarrow> Inr fallbackResult
           | Responded responseText \<Rightarrow>
               if \<not> present responseText then Inr fallbackResult
               else (case json_parse ?e (the responseText) of
                       None \<Rightarrow> Inr fallbackResult
                     | Some v \<Rightarrow> Inr v))"
    by blast
  then have c: "fst (processInputWithGemini ?e ?t None None [] [] []) = Inr breadValue"
    by (simp add: answering_def sampleEnv_def texts_nonempty)
  from q b have "fst (processInputWithGemini ?f ?t None None [] [] []) =
          (case generateContent ?f (helloRequest ?f) of
             Rejected \<Rightarrow> Inr fallbackResult
           | Responded responseText \<Rightarrow>
               if \<not> present responseText then Inr fallbackResult
               else (case json_parse ?f (the responseText) of
                       None \<Rightarrow> Inr fallbackResult
                     | Some v \<Rightarrow> Inr v))"
    by blast
  then have d: "fst (processInputWithGemini ?f ?t None None [] [] []) = Inr fallbackResult"
    by (simp add: sampleEnv_def)
  from n z have k: "fst (processInputWithGemini ?e None None None [] [] []) = Inr fallbackResult"
    by blast
  from r have "isGeminiAnalysisResult fallbackResult" by blast
  with a b c d z k show ?thesis by blast
qed

theorem gateway_unchecked_counterexample:
  "fst (processInputWithGemini (answering ''{}'' (JObject []) (\<lambda>n. False))
          (Some ''hello'') None None [] [] []) = Inr (JObject []) \<and>
   JObject [] \<noteq> fallbackResult \<and>
   \<not> conforms analysisSchema (JObject []) \<and>
   \<not> isGeminiAnalysisResult (JObject [])"
proof -
  have "fst (processInputWithGemini (answering ''{}'' (JObject []) (\<lambda>n. False))
          (Some ''hello'') None None [] [] []) = Inr (JObject [])"
    by (simp add: processInputWithGemini_def processInputWithGemini_try_def buildParts_def
          Let_def answering_def sampleEnv_def)
  moreover have "JObject [] \<noteq> fallbackResult"
    by (simp add: fallbackResult_def)
  moreover have "\<not> conforms analysisSchema (JObject [])"
    by (simp add: analysisSchema_def)
  moreover have "\<not> isGeminiAnalysisResult (JObject [])"
    by (simp add: isGeminiAnalysisResult_def)
  ultimately show ?thesis by blast
qed

theorem no_input_no_request_witness:
  "\<not> present None \<and>
   processInputWithGemini (answering breadText breadValue (\<lambda>n. False)) None None None
     [coffee] [] [] = (Inr fallbackResult, []) \<and>
   processSubmission (answering breadText breadValue (\<lambda>n. False)) None None None
     (sampleState [coffee] [coffeeRow]) = (None, sampleState [coffee] [coffeeRow]) \<and>
   currentUser (sampleState [coffee] [coffeeRow]) = Some sampleUser \<and>
   present (Some ''data:,'') \<and>
   \<not> present (Some []) \<and>
   \<not> present (imagePayload (Some ''data:,'')) \<and>
   fst (processSubmission (answering breadText breadValue (\<lambda>n. False)) (Some []) (Some ''data:,'')
          None (sampleState [coffee] [coffeeRow])) = None \<and>
   asked (snd (processSubmission (answering breadText breadValue (\<lambda>n. False)) (Some [])
          (Some ''data:,'') None (sampleState [coffee] [coffeeRow]))) = [] \<and>
   transactions (snd (processSubmission (answering breadText breadValue (\<lambda>n. False)) (Some [])
          (Some ''data:,'') None (sampleState [coffee] [coffeeRow]))) = [coffee] \<and>
   store (snd (processSubmission (answering breadText breadValue (\<lambda>n. False)) (Some [])
          (Some ''data:,'') None (sampleState [coffee] [coffeeRow])))
     = \<lparr> tbl = [coffeeRow], sent = [] \<rparr> \<and>
   map msg_text (chatHistory (snd (processSubmission (answering breadText breadValue (\<lambda>n. False))
          (Some []) (Some ''data:,'') None (sampleState [coffee] [coffeeRow]))))
     = [Literal imageSent, Reply (JString apologyText)] \<and>
   status (snd (processSubmission (answering breadText breadValue (\<lambda>n. False)) (Some [])
          (Some ''data:,'') None (sampleState [coffee] [coffeeRow]))) = SUCCESS"
proof -
  let ?e = "answering breadText breadValue (\<lambda>n. False)"
  let ?s = "sampleState [coffee] [coffeeRow]"
  let ?i = "Some ''data:,''"
  have n: "\<not> present None" by simp
  have u: "currentUser ?s = Some sampleUser"
    by (simp add: sampleState_def)
  have p: "present ?i" by simp
  have t: "\<not> present (Some [])" by simp
  have b: "\<not> present (imagePayload ?i)"
    by (simp add: imagePayload_def)
  note r0 = no_input_no_request[of None None None ?e "[coffee]" "[]" "[]" None None ?s]
  note r = no_input_no_request[of "Some []" None None ?e "[]" "[]" "[]" ?i None ?s sampleUser]
  from r0 n have g: "processInputWithGemini ?e None None None [coffee] [] [] = (Inr fallbackResult, [])"
    and h: "processSubmission ?e None None None ?s = (None, ?s)"
    by blast+
  from r t b n
  have "fst (processSubmission ?e (Some []) ?i None ?s) = None"
    and "asked (snd (processSubmission ?e (Some []) ?i None ?s)) = asked ?s"
    and "transactions (snd (processSubmission ?e (Some []) ?i None ?s)) = transactions ?s"
    and "store (snd (processSubmission ?e (Some []) ?i None ?s)) = store ?s"
    by blast+
  then have q: "fst (processSubmission ?e (Some []) ?i None ?s) = None"
    "asked (snd (processSubmission ?e (Some []) ?i None ?s)) = []"
    "transactions (snd (processSubmission ?e (Some []) ?i None ?s)) = [coffee]"
    "store (snd (processSubmission ?e (Some []) ?i None ?s)) = \<lparr> tbl = [coffeeRow], sent = [] \<rparr>"
    by (simp_all add: sampleState_def)
  from r u p t b n
  have "chatHistory (snd (processSubmission ?e (Some []) ?i None ?s)) =
            chatHistory ?s @
              [userMessage ?e (Some []) ?i None ?s,
               \<lparr> msg_id = uuidv4 ?e (uuids ?s + 1), msg_role = Model,
                 msg_text = Reply (JString apologyText),
                 imageUri = None, isAudio = None \<rparr>]"
    and st: "status (snd (processSubmission ?e (Some []) ?i None ?s)) = SUCCESS"
    by blast+
  then have c: "map msg_text (chatHistory (snd (processSubmission ?e (Some []) ?i None ?s)))
     = [Literal imageSent, Reply (JString apologyText)]"
    by (simp add: sampleState_def userMessage_def)
  from n g h u p t b q c st show ?thesis by blast
qed

theorem no_input_counterexample:
  "fst (processInputWithGemini (answering breadText breadValue (\<lambda>n. False)) (Some []) None None
          [] [] []) = Inr fallbackResult \<and>
   fst (processInputWithGemini (answering breadText breadValue (\<lambda>n. False)) (Some []) None None
          [] [] []) \<noteq> Inl NoInputProvided \<and>
   fst (processSubmission (answering breadText breadValue (\<lambda>n. False)) (Some []) None None
          (sampleState [] [])) = None"
proof -
  have a: "\<not> present (Some [])" and b: "\<not> present None" by simp_all
  from gateway_no_input[OF a b b] processSubmission_nothing[OF a b b] show ?thesis by simp
qed



theorem remote_calls_owner_scoped_witness:
  "fst (getTransactions (sampleEnv [] Rejected (\<lambda>n. False)) sampleUser
          \<lparr> tbl = [coffeeRow, otherRow], sent = [] \<rparr>) = Inr [coffee] \<and>
   [coffee] = map (transaction_of_row (sampleEnv [] Rejected (\<lambda>n. False)))
                (owned (user_id sampleUser) [coffeeRow, otherRow]) \<and>
   list_all (\<lambda>t. property t ''userId'' = JString (user_id sampleUser)) [coffee] \<and>
   property smuggled ''userId'' = JString ''u2'' \<and>
   map row_user_id (tbl (snd (saveTransaction (sampleEnv [] Rejected (\<lambda>n. False)) sampleUser
          smuggled \<lparr> tbl = [coffeeRow, otherRow], sent = [] \<rparr>))) = [''u1'', ''u2'', ''u1''] \<and>
   foreign ''u1'' (tbl (snd (saveTransaction (sampleEnv [] Rejected (\<lambda>n. False)) sampleUser
          smuggled \<lparr> tbl = [coffeeRow, otherRow], sent = [] \<rparr>))) = [otherRow] \<and>
   foreign ''u1'' (tbl (snd (deleteTransaction (sampleEnv [] Rejected (\<lambda>n. False)) sampleUser
          (JString ''t9'') \<lparr> tbl = [coffeeRow, otherRow], sent = [] \<rparr>))) = [otherRow] \<and>
   foreign ''u1'' (tbl (snd (updateAllTransactions (sampleEnv [] Rejected (\<lambda>n. False)) sampleUser
          [freebie] \<lparr> tbl = [coffeeRow, otherRow], sent = [] \<rparr>))) = [otherRow] \<and>
   currentUser (sampleState [coffee] [coffeeRow, otherRow]) = Some sampleUser \<and>
   (\<exists>qs. sent (store (handleDeleteTransaction (sampleEnv [] Rejected (\<lambda>n. False))
                        (JString ''t9'') True (sampleState [coffee] [coffeeRow, otherRow])))
            = sent (store (sampleState [coffee] [coffeeRow, otherRow])) @ qs \<and>
         list_all (scoped (user_id sampleUser)) qs)"
proof -
  let ?e = "sampleEnv [] Rejected (\<lambda>n. False)"
  let ?w = "\<lparr> tbl = [coffeeRow, otherRow], sent = [] \<rparr>"
  let ?s = "sampleState [coffee] [coffeeRow, otherRow]"
  have g: "fst (getTransactions ?e sampleUser ?w) = Inr [coffee]"
    by (simp add: getTransactions_def send_def Let_def sampleEnv_def sampleUser_def matches_def
          coffeeRow_def otherRow_def transaction_of_row_def coffee_def)
  have cu: "currentUser ?s = Some sampleUser"
    by (simp add: sampleState_def)
  note r = remote_calls_owner_scoped[of ?e sampleUser ?w smuggled "JString ''t9''" "[freebie]"
      ?s "Some ''hello''" None None True "Some onlyIdText"]
  from r g have a: "[coffee] = map (transaction_of_row ?e) (owned (user_id sampleUser) (tbl ?w))"
    and b: "list_all (\<lambda>t. property t ''userId'' = JString (user_id sampleUser)) [coffee]"
    by blast+
  from r cu have h: "\<exists>qs. sent (store (handleDeleteTransaction ?e (JString ''t9'') True ?s))
            = sent (store ?s) @ qs \<and> list_all (scoped (user_id sampleUser)) qs"
    by blast
  have f: "foreign (user_id sampleUser) (tbl ?w) = [otherRow]"
    by (simp add: foreign_def sampleUser_def coffeeRow_def otherRow_def)
  have u: "user_id sampleUser = ''u1''"
    by (simp add: sampleUser_def)
  from r f u have c: "foreign ''u1'' (tbl (snd (saveTransaction ?e sampleUser smuggled ?w))) = [otherRow]"
    and d: "foreign ''u1'' (tbl (snd (deleteTransaction ?e sampleUser (JString ''t9'') ?w))) = [otherRow]"
    and k: "foreign ''u1'' (tbl (snd (updateAllTransactions ?e sampleUser [freebie] ?w))) = [otherRow]"
    by simp_all
  have m: "property smuggled ''userId'' = JString ''u2''"
    by (simp add: smuggled_def mkTransaction_def)
  have n: "map row_user_id (tbl (snd (saveTransaction ?e sampleUser smuggled ?w)))
             = [''u1'', ''u2'', ''u1'']"
    by (simp add: saveTransaction_def payload_def send_def Let_def sampleEnv_def sampleUser_def
          smuggled_def mkTransaction_def coffeeRow_def otherRow_def)
  from a have a': "[coffee] = map (transaction_of_row ?e) (owned (user_id sampleUser) [coffeeRow, otherRow])"
    by simp
  from g a' b m n c d k cu h show ?thesis by blast
qed




theorem import_rejects_falsy_field_witness:
  "json_parse (sampleEnv [(freebieText, JArray [freebie])] Rejected (\<lambda>n. False)) freebieText
     = Some (JArray [freebie]) \<and>
   freebie \<in> set [freebie] \<and>
   property freebie ''amount'' = JNumber 0 \<and>
   transactions (handleImportData (sampleEnv [(freebieText, JArray [freebie])] Rejected (\<lambda>n. False))
      (Some freebieText) True (sampleState [coffee] [coffeeRow])) = [coffee] \<and>
   store (handleImportData (sampleEnv [(freebieText, JArray [freebie])] Rejected (\<lambda>n. False))
      (Some freebieText) True (sampleState [coffee] [coffeeRow]))
     = \<lparr> tbl = [coffeeRow], sent = [] \<rparr> \<and>
   get zeroAmountValue ''action'' = Inr (JString ''ADD_TRANSACTION'') \<and>
   truthy (property zeroAmountValue ''transactionData'') \<and>
   property (property zeroAmountValue ''transactionData'') ''amount'' = JNumber 0 \<and>
   (\<exists>tx. transactions (snd (applyResult
             (sampleEnv [(freebieText, JArray [freebie])] Rejected (\<lambda>n. False))
             sampleUser zeroAmountValue (sampleState [coffee] [coffeeRow]))) = [coffee] @ [tx] \<and>
         property tx ''amount'' = JNumber 0)"
proof -
  let ?e = "sampleEnv [(freebieText, JArray [freebie])] Rejected (\<lambda>n. False)"
  let ?s = "sampleState [coffee] [coffeeRow]"
  have p: "json_parse ?e freebieText = Some (JArray [freebie])"
    by (simp add: sampleEnv_def)
  have m: "freebie \<in> set [freebie]" by simp
  have z: "property freebie ''amount'' = JNumber 0"
    by (simp add: freebie_def mkTransaction_def)
  have g: "get zeroAmountValue ''action'' = Inr (JString ''ADD_TRANSACTION'')"
    and t: "truthy (property zeroAmountValue ''transactionData'')"
    and a: "property (property zeroAmountValue ''transactionData'') ''amount'' = JNumber 0"
    by (simp_all add: zeroAmountValue_def get_def)
  note r = import_rejects_falsy_field[of ?e freebieText "[freebie]" freebie True ?s
      zeroAmountValue sampleUser]
  from r p m z
  have "transactions (handleImportData ?e (Some freebieText) True ?s) = transactions ?s"
    and "store (handleImportData ?e (Some freebieText) True ?s) = store ?s"
    by blast+
  then have i: "transactions (handleImportData ?e (Some freebieText) True ?s) = [coffee]"
    and j: "store (handleImportData ?e (Some freebieText) True ?s) = \<lparr> tbl = [coffeeRow], sent = [] \<rparr>"
    by (simp_all add: sampleState_def)
  from r g t a
  have "\<exists>tx. transactions (snd (applyResult ?e sampleUser zeroAmountValue ?s)) =
               transactions ?s @ [tx] \<and>
             property tx ''amount'' = JNumber 0 \<and>
             fst (applyResult ?e sampleUser zeroAmountValue ?s) = None"
    by blast
  then have k: "\<exists>tx. transactions (snd (applyResult ?e sampleUser zeroAmountValue ?s)) =
               [coffee] @ [tx] \<and> property tx ''amount'' = JNumber 0"
    by (auto simp add: sampleState_def)
  from p m z i j g t a k show ?thesis by blast
qed

end
